theory Spec2Isabelle
  imports Main "HOL-Library.Word" "HOL-Library.Sublist" "HOL-Library.AList"
begin

section \<open>Praggo AI: the multi-credential request dispatcher of server/praggoAI.ts\<close>

subsection \<open>JavaScript strings and values\<close>

text \<open>
  A JavaScript string is a sequence of UTF-16 code units, and \<open>.length\<close> counts them.
  ASCII literals of the source are written \<open>u16 ''...''\<close>; the Bengali literals are given by
  their code units.
\<close>

type_synonym jsstring = "16 word list"

definition u16 :: "string \<Rightarrow> jsstring" where
  "u16 s = map of_char s"

text \<open>
  \<open>String.prototype.toLowerCase\<close>, on the ASCII letters. No other code unit lowers to one of
  the letters of the four search words of \<open>isQuotaError\<close> in a way that completes a match, so the
  rest of the Unicode case mapping is left out.
\<close>

definition lowerUnit :: "16 word \<Rightarrow> 16 word" where
  "lowerUnit c = (if 65 \<le> c \<and> c \<le> 90 then c + 32 else c)"

definition toLowerCase :: "jsstring \<Rightarrow> jsstring" where
  "toLowerCase s = map lowerUnit s"

text \<open>\<open>String.prototype.includes\<close>: the search string occurs as a contiguous run.\<close>

fun includesJS :: "jsstring \<Rightarrow> jsstring \<Rightarrow> bool" where
  "includesJS [] n = (n = [])"
| "includesJS (c # cs) n = (prefix n (c # cs) \<or> includesJS cs n)"

text \<open>
  The values a field of a thrown object can hold. Numbers are integers here (HTTP status
  codes); \<open>JUndefined\<close> is also what reading an absent field gives.
\<close>

datatype jsval = JUndefined | JNull | JBool bool | JNum int | JStr jsstring

fun truthy :: "jsval \<Rightarrow> bool" where
  "truthy JUndefined = False"
| "truthy JNull = False"
| "truthy (JBool b) = b"
| "truthy (JNum n) = (n \<noteq> 0)"
| "truthy (JStr s) = (s \<noteq> [])"

text \<open>The operator \<open>a || b\<close>.\<close>

definition orJS :: "jsval \<Rightarrow> jsval \<Rightarrow> jsval" where
  "orJS a b = (if truthy a then a else b)"

text \<open>
  What the backend (or the response handling) throws: an object with the three fields that
  the dispatcher reads. The variable \<open>lastError\<close> starts as \<open>null\<close>, hence the classifier
  takes an optional error.
\<close>

record js_error =
  message :: jsval
  status :: jsval
  code :: jsval

text \<open>
  What the service itself throws: \<open>new Error(text)\<close>, or the \<open>TypeError\<close> of the runtime when
  a missing method is called.
\<close>

datatype exn = Error jsstring | TypeError jsstring

definition notAFunction :: "string \<Rightarrow> jsstring" where
  "notAFunction callee = u16 callee @ u16 '' is not a function''"

definition newError :: "jsstring \<Rightarrow> js_error" where
  "newError m = \<lparr>message = JStr m, status = JUndefined, code = JUndefined\<rparr>"

fun asThrown :: "exn \<Rightarrow> js_error" where
  "asThrown (Error m) = newError m"
| "asThrown (TypeError m) = newError m"

subsection \<open>The failure classifier: isQuotaError\<close>

text \<open>
  \<open>error?.message?.toLowerCase()\<close>: \<open>undefined\<close> when the error or its message is null or
  undefined, the lowered text for a string, and a \<open>TypeError\<close> for every other message,
  since numbers and booleans have no \<open>toLowerCase\<close> method and \<open>?.\<close> guards only null and
  undefined.
\<close>

fun messageToLowerCase :: "js_error option \<Rightarrow> exn + jsval" where
  "messageToLowerCase None = Inr JUndefined"
| "messageToLowerCase (Some e) =
     (case message e of
        JUndefined \<Rightarrow> Inr JUndefined
      | JNull \<Rightarrow> Inr JUndefined
      | JStr s \<Rightarrow> Inr (JStr (toLowerCase s))
      | _ \<Rightarrow> Inl (TypeError (notAFunction ''error?.message?.toLowerCase'')))"

fun optField :: "(js_error \<Rightarrow> jsval) \<Rightarrow> js_error option \<Rightarrow> jsval" where
  "optField f None = JUndefined"
| "optField f (Some e) = f e"

definition errorStatus :: "js_error option \<Rightarrow> jsval" where
  "errorStatus error = orJS (optField status error) (optField code error)"

fun textOf :: "jsval \<Rightarrow> jsstring" where
  "textOf (JStr s) = s"
| "textOf _ = []"

definition isQuotaError :: "js_error option \<Rightarrow> exn + bool" where
  "isQuotaError error =
     (case messageToLowerCase error of
        Inl x \<Rightarrow> Inl x
      | Inr lowered \<Rightarrow>
          (let errorMessage = textOf (orJS lowered (JStr []));
               errorStatus = errorStatus error
           in Inr (includesJS errorMessage (u16 ''quota'') \<or>
                   includesJS errorMessage (u16 ''rate limit'') \<or>
                   includesJS errorMessage (u16 ''limit exceeded'') \<or>
                   includesJS errorMessage (u16 ''resource exhausted'') \<or>
                   errorStatus = JNum 429 \<or>
                   errorStatus = JNum 403)))"

text \<open>
  The classifier as the specification words it: the message, compared without regard to
  case, contains a search word.
\<close>

definition containsIgnoringCase :: "jsstring \<Rightarrow> jsstring \<Rightarrow> bool" where
  "containsIgnoringCase msg kw =
     (\<exists>i \<in> set [0 ..< Suc (length msg)].
        map lowerUnit (take (length kw) (drop i msg)) = map lowerUnit kw)"

definition quotaWords :: "jsstring list" where
  "quotaWords = [u16 ''quota'', u16 ''rate limit'', u16 ''limit exceeded'', u16
    ''resource exhausted'']"

definition messageText :: "js_error option \<Rightarrow> jsstring" where
  "messageText error = textOf (optField message error)"

definition stringOrAbsent :: "jsval \<Rightarrow> bool" where
  "stringOrAbsent v = (case v of JUndefined \<Rightarrow> True | JNull \<Rightarrow> True | JStr s \<Rightarrow> True | _ \<Rightarrow> False)"

subsection \<open>The service, the store and the outside world\<close>

text \<open>One element of \<open>apiKeys\<close>.\<close>

record api_key =
  keyName :: jsstring
  keyValue :: jsstring
  keyIndex :: nat

text \<open>
  A row of the table \<open>praggoAIKeys\<close>, with the columns the service reads or writes
  (\<open>None\<close> is SQL null; dates are milliseconds).
\<close>

record key_row =
  k_keyName :: jsstring
  k_keyIndex :: nat
  k_keyValue :: "jsstring option"
  k_status :: jsstring
  k_isEnabled :: bool
  k_dailyUsageCount :: int
  k_quotaResetDate :: "int option"
  k_lastUsed :: "int option"

datatype user_role = Teacher | Student

datatype request_type = GenerateQuestions | SolveDoubt

text \<open>A row of the table \<open>praggoAIUsage\<close>: one Usage Record.\<close>

record usage_row =
  u_userId :: jsstring
  u_userRole :: user_role
  u_requestType :: request_type
  u_keyUsed :: jsstring
  u_subject :: jsstring
  u_success :: bool
  u_errorMessage :: jsval
  u_processingTime :: "int option"
  u_promptLength :: "nat option"
  u_responseLength :: "nat option"

text \<open>
  The state the service works on: its two fields \<open>apiKeys\<close> and \<open>currentKeyIndex\<close>, the
  process environment, the two tables, and three counters of what has happened so far: the
  store operations issued, the clock readings taken, and the backend invocations made, each
  with the cursor position and the credential it was made with.
\<close>

record world =
  apiKeys :: "api_key list"
  currentKeyIndex :: nat
  env :: "(jsstring \<times> jsstring) list"
  praggoAIKeys :: "key_row list"
  praggoAIUsage :: "usage_row list"
  dbOps :: nat
  clockReads :: nat
  calls :: "(nat \<times> api_key) list"

text \<open>
  A text accessor \<open>text()\<close> of a response, by what calling it does; the part of a response
  that the dispatcher inspects; and the response itself, whose field \<open>response\<close> may hold a
  nested one.
\<close>

datatype accessor = Returns jsstring | Throws js_error

record envelope =
  textFn :: "accessor option"
  candidateText :: "jsstring option"

record response = envelope +
  nested :: "envelope option"

datatype backend_outcome = Rejected js_error | Resolved "response option"

text \<open>
  What the service does not control: the answer of the backend to its n-th invocation,
  whether the n-th store operation fails, and the n-th reading of the clock.
\<close>

record oracles =
  backend :: "nat \<Rightarrow> api_key \<Rightarrow> jsstring \<Rightarrow> backend_outcome"
  dbFails :: "nat \<Rightarrow> bool"
  clock :: "nat \<Rightarrow> int"

definition maxRetries :: nat where
  "maxRetries = 7"

definition noKeysMessage :: jsstring where
  "noKeysMessage = u16 ''Praggo AI '' @ [2447, 2480, 32, 2453, 2507, 2472, 2507] @ u16
     '' API key '' @ [2453, 2472, 2475, 2495, 2455, 2494, 2480, 32, 2453, 2480, 2494, 32, 2472,
     2503, 2439, 2404, 32, 2437, 2472, 2497, 2455, 2509, 2480, 2489, 32, 2453, 2480, 2503] @ u16
     '' GEMINI_API_KEY_1, GEMINI_API_KEY_2 '' @ [2439, 2468, 2509, 2479, 2494, 2470, 2495, 32,
     2488, 2503, 2463, 32, 2453, 2480, 2497, 2472, 2404]"

definition dailyLimitMessage :: jsstring where
  "dailyLimitMessage = [2438, 2460, 2503, 2480, 32, 2460, 2472, 2509, 2479, 32, 2438, 2474, 2472,
     2494, 2480] @ u16 '' Praggo AI '' @ [2476, 2509, 2479, 2476, 2489, 2494, 2480, 2503, 2480,
     32, 2488, 2496, 2478, 2494, 32, 2486, 2503, 2487, 33, 32, 2438, 2455, 2494, 2478, 2496,
     2453, 2494, 2482, 32, 2438, 2476, 2494, 2480, 32, 2458, 2503, 2487, 2509, 2463, 2494, 32,
     2453, 2480, 2497, 2472, 2404]"

definition allKeysFullMessage :: jsstring where
  "allKeysFullMessage = u16 ''Praggo AI '' @ [2447, 2480, 32, 2488, 2453, 2482] @ u16
     '' API key '' @ [2447, 2480, 32, 2488, 2496, 2478, 2494, 32, 2474, 2498, 2480, 2509, 2467,
     33, 32, 2437, 2472, 2497, 2455, 2509, 2480, 2489, 32, 2453, 2480, 2503, 32, 2453, 2495,
     2459, 2497, 2453, 2509, 2487, 2467, 32, 2474, 2480, 32, 2458, 2503, 2487, 2509, 2463, 2494,
     32, 2453, 2480, 2497, 2472, 2404]"

definition serviceProblemMessage :: jsstring where
  "serviceProblemMessage = u16 ''Praggo AI '' @ [2488, 2503, 2476, 2494, 2479, 2492, 32, 2488,
     2478, 2488, 2509, 2479, 2494, 32, 2489, 2479, 2492, 2503, 2459, 2503, 2404, 32, 2437, 2472,
     2497, 2455, 2509, 2480, 2489, 32, 2453, 2480, 2503, 32, 2438, 2476, 2494, 2480, 32, 2458,
     2503, 2487, 2509, 2463, 2494, 32, 2453, 2480, 2497, 2472, 2404]"


definition now :: "oracles \<Rightarrow> world \<Rightarrow> int \<times> world" where
  "now E w = (clock E (clockReads w), w\<lparr>clockReads := Suc (clockReads w)\<rparr>)"

text \<open>
  One awaited store operation: it throws when the store fails, and applies its change
  otherwise.
\<close>

definition dbOp :: "oracles \<Rightarrow> (world \<Rightarrow> world) \<Rightarrow> world \<Rightarrow> bool \<times> world" where
  "dbOp E change w =
     (if dbFails E (dbOps w) then (False, w\<lparr>dbOps := Suc (dbOps w)\<rparr>)
      else (True, (change w)\<lparr>dbOps := Suc (dbOps w)\<rparr>))"

subsection \<open>The credential pool: getCurrentKey, createGeminiClient, rotateToNextKey\<close>

text \<open>
  Reading \<open>apiKeys[currentKeyIndex]\<close> beyond the end gives \<open>undefined\<close>, which the callers
  do not tell from \<open>null\<close>: both are \<open>None\<close>.
\<close>

definition getCurrentKey :: "world \<Rightarrow> api_key option" where
  "getCurrentKey w =
     (if length (apiKeys w) = 0 then None
      else if currentKeyIndex w < length (apiKeys w) then Some (apiKeys w ! currentKeyIndex w)
      else None)"

text \<open>The client is the credential it was built with.\<close>

definition createGeminiClient :: "world \<Rightarrow> api_key option" where
  "createGeminiClient w =
     (case getCurrentKey w of None \<Rightarrow> None | Some currentKey \<Rightarrow> Some currentKey)"

definition markQuotaExceeded :: "jsstring \<Rightarrow> int \<Rightarrow> world \<Rightarrow> world" where
  "markQuotaExceeded name resetAt w =
     w\<lparr>praggoAIKeys :=
         map (\<lambda>r. if k_keyName r = name
                   then r\<lparr>k_status := u16 ''quota_exceeded'', k_quotaResetDate := Some resetAt\<rparr>
                   else r)
             (praggoAIKeys w)\<rparr>"

definition rotateToNextKey :: "oracles \<Rightarrow> world \<Rightarrow> bool \<times> world" where
  "rotateToNextKey E w =
     (if length (apiKeys w) \<le> 1 then (False, w)
      else
        let w2 = (case getCurrentKey w of
                    None \<Rightarrow> w
                  | Some oldKey \<Rightarrow>
                      (let (t, w1) = now E w
                       in snd (dbOp E (markQuotaExceeded (keyName oldKey)
                                         (t + 24 * 60 * 60 * 1000)) w1)))
        in (True, w2\<lparr>currentKeyIndex := (currentKeyIndex w2 + 1) mod length (apiKeys w2)\<rparr>))"

subsection \<open>The usage recorder: logUsage\<close>

definition bumpUsage :: "jsstring \<Rightarrow> int \<Rightarrow> world \<Rightarrow> world" where
  "bumpUsage name t w =
     w\<lparr>praggoAIKeys :=
         map (\<lambda>r. if k_keyName r = name
                   then r\<lparr>k_dailyUsageCount := k_dailyUsageCount r + 1, k_lastUsed := Some t\<rparr>
                   else r)
             (praggoAIKeys w)\<rparr>"

text \<open>
  The whole body is inside \<open>try\<close>: a failing insert skips the counter update, and either
  failure ends in the \<open>catch\<close> that only logs to the console.
\<close>

definition logUsage ::
  "oracles \<Rightarrow> jsstring \<Rightarrow> user_role \<Rightarrow> request_type \<Rightarrow> jsstring \<Rightarrow> bool \<Rightarrow> jsstring option \<Rightarrow>
   jsval \<Rightarrow> int option \<Rightarrow> nat option \<Rightarrow> nat option \<Rightarrow> world \<Rightarrow> world" where
  "logUsage E userId userRole requestType subject success keyUsed errorMessage processingTime
     promptLength responseLength w =
     (let row = \<lparr>u_userId = userId, u_userRole = userRole, u_requestType = requestType,
                 u_keyUsed = (case keyUsed of None \<Rightarrow> u16 ''none''
                              | Some k \<Rightarrow> if k = [] then u16 ''none'' else k),
                 u_subject = subject, u_success = success, u_errorMessage = errorMessage,
                 u_processingTime = processingTime, u_promptLength = promptLength,
                 u_responseLength = responseLength\<rparr>;
          (inserted, w1) = dbOp E (\<lambda>v. v\<lparr>praggoAIUsage := praggoAIUsage v @ [row]\<rparr>) w
      in if \<not> inserted then w1
         else (case keyUsed of
                 None \<Rightarrow> w1
               | Some k \<Rightarrow>
                   if k \<noteq> [] \<and> success
                   then (let (t, w2) = now E w1 in snd (dbOp E (bumpUsage k t) w2))
                   else w1))"

subsection \<open>Reading the text of a response\<close>

text \<open>The digits of a number, and \<open>String(v)\<close> as a template literal applies it.\<close>

fun decimal :: "nat \<Rightarrow> jsstring" where
  "decimal n = (if n < 10 then [48 + of_nat n] else decimal (n div 10) @ [48 + of_nat (n mod 10)])"

fun toStringJS :: "jsval \<Rightarrow> jsstring" where
  "toStringJS JUndefined = u16 ''undefined''"
| "toStringJS JNull = u16 ''null''"
| "toStringJS (JBool b) = (if b then u16 ''true'' else u16 ''false'')"
| "toStringJS (JNum n) = (if n < 0 then u16 ''-'' @ decimal (nat (- n)) else decimal (nat n))"
| "toStringJS (JStr s) = s"

fun callText :: "accessor \<Rightarrow> js_error + jsstring" where
  "callText (Returns s) = Inr s"
| "callText (Throws e) = Inl e"

definition truthyText :: "jsstring option \<Rightarrow> bool" where
  "truthyText t = (case t of None \<Rightarrow> False | Some s \<Rightarrow> s \<noteq> [])"

text \<open>
  The four places tried in order, inside the inner \<open>try\<close>. The error for an unknown
  structure is thrown inside that \<open>try\<close> too, so the inner \<open>catch\<close> wraps it like any other.
\<close>

definition responseText :: "response \<Rightarrow> js_error + jsstring" where
  "responseText r =
     (if nested r \<noteq> None \<and> textFn (the (nested r)) \<noteq> None
        then callText (the (textFn (the (nested r))))
      else if nested r \<noteq> None \<and> truthyText (candidateText (the (nested r)))
        then Inr (the (candidateText (the (nested r))))
      else if textFn r \<noteq> None
        then callText (the (textFn r))
      else if truthyText (candidateText r)
        then Inr (the (candidateText r))
      else Inl (newError (u16 ''Gemini API returned invalid response structure'')))"

definition extractText :: "response \<Rightarrow> exn + jsstring" where
  "extractText r =
     (case responseText r of
        Inr result \<Rightarrow> Inr result
      | Inl textError \<Rightarrow>
          Inl (Error (u16 ''Failed to extract text from Gemini response: '' @
                      toStringJS (message textError))))"

subsection \<open>The dispatch loop: makeAPICall\<close>

definition generateContent :: "oracles \<Rightarrow> api_key \<Rightarrow> jsstring \<Rightarrow> world \<Rightarrow> backend_outcome \<times> world" where
  "generateContent E genAI prompt w =
     (backend E (length (calls w)) genAI prompt,
      w\<lparr>calls := calls w @ [(currentKeyIndex w, genAI)]\<rparr>)"

text \<open>
  What the outer \<open>try\<close> makes of the backend's answer before anything is recorded: the
  text, or the error that the outer \<open>catch\<close> receives (a rejection, the error for a missing
  response, or the wrapped extraction error).
\<close>

definition readResponse :: "backend_outcome \<Rightarrow> js_error + jsstring" where
  "readResponse outcome =
     (case outcome of
        Rejected e \<Rightarrow> Inl e
      | Resolved None \<Rightarrow> Inl (newError (u16 ''Gemini API returned no response''))
      | Resolved (Some r) \<Rightarrow>
          (case extractText r of
             Inl x \<Rightarrow> Inl (asThrown x)
           | Inr result \<Rightarrow> Inr result))"

text \<open>
  The body of the outer \<open>try\<close>: the backend call, the extraction of the text, and the
  successful Usage Record.
\<close>

definition tryAttempt ::
  "oracles \<Rightarrow> jsstring \<Rightarrow> jsstring \<Rightarrow> user_role \<Rightarrow> request_type \<Rightarrow> jsstring \<Rightarrow> int \<Rightarrow>
   api_key \<Rightarrow> api_key \<Rightarrow> world \<Rightarrow> (js_error + jsstring) \<times> world" where
  "tryAttempt E prompt userId userRole requestType subject startTime currentKey genAI w =
     (let (outcome, w1) = generateContent E genAI prompt w
      in case readResponse outcome of
           Inl e \<Rightarrow> (Inl e, w1)
         | Inr result \<Rightarrow>
             (let (t, w2) = now E w1;
                  processingTime = t - startTime;
                  responseLength = length result
              in (Inr result,
                  logUsage E userId userRole requestType subject True
                    (Some (keyName currentKey)) JUndefined (Some processingTime)
                    (Some (length prompt)) (Some responseLength) w2)))"

text \<open>How one pass through the loop body ends; \<open>Continue\<close> always follows \<open>attempt++\<close>.\<close>

datatype iteration = Returned jsstring | Threw exn | Break | Continue

definition attemptOnce ::
  "oracles \<Rightarrow> jsstring \<Rightarrow> jsstring \<Rightarrow> user_role \<Rightarrow> request_type \<Rightarrow> jsstring \<Rightarrow> int \<Rightarrow>
   js_error option \<Rightarrow> world \<Rightarrow> iteration \<times> js_error option \<times> world" where
  "attemptOnce E prompt userId userRole requestType subject startTime lastError w =
     (case getCurrentKey w of
        None \<Rightarrow>
          (Threw (Error noKeysMessage), lastError,
           logUsage E userId userRole requestType subject False None (JStr noKeysMessage)
             None None None w)
      | Some currentKey \<Rightarrow>
          (case createGeminiClient w of
             None \<Rightarrow> (Continue, lastError, w)
           | Some genAI \<Rightarrow>
               (case tryAttempt E prompt userId userRole requestType subject startTime
                       currentKey genAI w of
                  (Inr result, w1) \<Rightarrow> (Returned result, lastError, w1)
                | (Inl error, w1) \<Rightarrow>
                    (let (t, w2) = now E w1;
                         processingTime = t - startTime;
                         w3 = logUsage E userId userRole requestType subject False
                                (Some (keyName currentKey)) (message error)
                                (Some processingTime) (Some (length prompt)) None w2
                     in case isQuotaError (Some error) of
                          Inl x \<Rightarrow> (Threw x, Some error, w3)
                        | Inr True \<Rightarrow> (Continue, Some error, snd (rotateToNextKey E w3))
                        | Inr False \<Rightarrow> (Break, Some error, w3)))))"

text \<open>How the loop ends: by \<open>return\<close>, by an error thrown from the body, or by falling out
  (the condition fails, or \<open>break\<close>) with the values of \<open>attempt\<close> and \<open>lastError\<close>.\<close>

datatype loop_end = Return jsstring | Throw exn | Fallen nat "js_error option"

function attemptLoop ::
  "oracles \<Rightarrow> jsstring \<Rightarrow> jsstring \<Rightarrow> user_role \<Rightarrow> request_type \<Rightarrow> jsstring \<Rightarrow> int \<Rightarrow>
   nat \<Rightarrow> js_error option \<Rightarrow> world \<Rightarrow> loop_end \<times> world" where
  "attemptLoop E prompt userId userRole requestType subject startTime attempt lastError w =
     (if attempt < maxRetries \<and> attempt < length (apiKeys w) then
        (case attemptOnce E prompt userId userRole requestType subject startTime lastError w of
           (Returned result, lastError', w') \<Rightarrow> (Return result, w')
         | (Threw x, lastError', w') \<Rightarrow> (Throw x, w')
         | (Break, lastError', w') \<Rightarrow> (Fallen attempt lastError', w')
         | (Continue, lastError', w') \<Rightarrow>
             attemptLoop E prompt userId userRole requestType subject startTime (Suc attempt)
               lastError' w')
      else (Fallen attempt lastError, w))"
  by pat_completeness auto
termination
  by (relation "measure (\<lambda>(E, prompt, userId, userRole, requestType, subject, startTime,
                            attempt, lastError, w). maxRetries - attempt)") auto

declare attemptLoop.simps [simp del]

text \<open>\<open>lastError?.message?.includes('exhausted')\<close>, which is case-sensitive.\<close>

fun messageIncludes :: "js_error option \<Rightarrow> jsstring \<Rightarrow> exn + bool" where
  "messageIncludes None n = Inr False"
| "messageIncludes (Some e) n =
     (case message e of
        JUndefined \<Rightarrow> Inr False
      | JNull \<Rightarrow> Inr False
      | JStr s \<Rightarrow> Inr (includesJS s n)
      | _ \<Rightarrow> Inl (TypeError (notAFunction ''lastError?.message?.includes'')))"

text \<open>The code after the loop: the error that is thrown.\<close>

definition finalError :: "nat \<Rightarrow> js_error option \<Rightarrow> world \<Rightarrow> exn" where
  "finalError attempt lastError w =
     (case messageIncludes lastError (u16 ''exhausted'') of
        Inl x \<Rightarrow> x
      | Inr exhausted \<Rightarrow>
          if exhausted \<or> attempt \<ge> length (apiKeys w) then Error dailyLimitMessage
          else (case isQuotaError lastError of
                  Inl x \<Rightarrow> x
                | Inr True \<Rightarrow> Error allKeysFullMessage
                | Inr False \<Rightarrow>
                    Error (textOf (orJS (optField message lastError)
                                        (JStr serviceProblemMessage)))))"

definition makeAPICall ::
  "oracles \<Rightarrow> jsstring \<Rightarrow> jsstring \<Rightarrow> user_role \<Rightarrow> request_type \<Rightarrow> jsstring \<Rightarrow> world \<Rightarrow>
   (exn + jsstring) \<times> world" where
  "makeAPICall E prompt userId userRole requestType subject w =
     (let (startTime, w0) = now E w
      in case attemptLoop E prompt userId userRole requestType subject startTime 0 None w0 of
           (Return result, w') \<Rightarrow> (Inr result, w')
         | (Throw x, w') \<Rightarrow> (Inl x, w')
         | (Fallen attempt lastError, w') \<Rightarrow> (Inl (finalError attempt lastError w'), w'))"

subsection \<open>Building the pool: initializeAPIKeys, initializeDatabaseKeys, refreshKeys\<close>

definition keyNames :: "jsstring list" where
  "keyNames = [u16 ''GEMINI_API_KEY'', u16 ''GEMINI_API_KEY_2'', u16 ''GEMINI_API_KEY_3'',
               u16 ''GEMINI_API_KEY_4'', u16 ''GEMINI_API_KEY_5'', u16 ''GEMINI_API_KEY_6'',
               u16 ''GEMINI_API_KEY_7'']"

text \<open>\<open>String.prototype.trim\<close>: white space and line terminators go from both ends.\<close>

definition isSpaceUnit :: "16 word \<Rightarrow> bool" where
  "isSpaceUnit c =
     (c \<in> set [9, 10, 11, 12, 13, 32, 160, 5760, 8232, 8233, 8239, 8287, 12288, 65279] \<or>
      (8192 \<le> c \<and> c \<le> 8202))"

definition trim :: "jsstring \<Rightarrow> jsstring" where
  "trim s = rev (dropWhile isSpaceUnit (rev (dropWhile isSpaceUnit s)))"

text \<open>\<open>process.env[name] || ''\<close>.\<close>

definition envValue :: "(jsstring \<times> jsstring) list \<Rightarrow> jsstring \<Rightarrow> jsstring" where
  "envValue e name = (case map_of e name of None \<Rightarrow> [] | Some v \<Rightarrow> v)"

text \<open>
  The first \<open>try\<close> of \<open>initializeAPIKeys\<close>: the enabled rows are read, and each one with a
  value of more than ten characters after trimming is written into the environment.
\<close>

definition restoreRow :: "key_row \<Rightarrow> (jsstring \<times> jsstring) list \<Rightarrow> (jsstring \<times> jsstring) list" where
  "restoreRow dbKey e =
     (case k_keyValue dbKey of
        None \<Rightarrow> e
      | Some v \<Rightarrow> if v \<noteq> [] \<and> length (trim v) > 10 then AList.update (k_keyName dbKey) v e else e)"

definition restoreKeys :: "oracles \<Rightarrow> world \<Rightarrow> world" where
  "restoreKeys E w =
     (let (selected, w1) = dbOp E (\<lambda>v. v) w
      in if \<not> selected then w1
         else w1\<lparr>env := fold restoreRow (filter k_isEnabled (praggoAIKeys w1)) (env w1)\<rparr>)"

text \<open>The pool: the seven names in order, each with its index, those without a value dropped.\<close>

definition buildPool :: "(jsstring \<times> jsstring) list \<Rightarrow> api_key list" where
  "buildPool e =
     filter (\<lambda>key. keyValue key \<noteq> [] \<and> trim (keyValue key) \<noteq> [])
       (map (\<lambda>(index, name). \<lparr>keyName = name, keyValue = envValue e name, keyIndex = index\<rparr>)
            (enumerate 0 keyNames))"

definition newKeyRow :: "api_key \<Rightarrow> key_row" where
  "newKeyRow key =
     \<lparr>k_keyName = keyName key, k_keyIndex = keyIndex key, k_keyValue = None,
      k_status = u16 ''active'', k_isEnabled = True, k_dailyUsageCount = 0,
      k_quotaResetDate = None, k_lastUsed = None\<rparr>"

text \<open>
  The loop of \<open>initializeDatabaseKeys\<close>, inside one \<open>try\<close>: the first store operation that
  fails ends it.
\<close>

fun initializeDatabaseKeysFrom :: "oracles \<Rightarrow> api_key list \<Rightarrow> world \<Rightarrow> world" where
  "initializeDatabaseKeysFrom E [] w = w"
| "initializeDatabaseKeysFrom E (key # keys) w =
     (let (selected, w1) = dbOp E (\<lambda>v. v) w
      in if \<not> selected then w1
         else
           let existingKey = take 1 (filter (\<lambda>r. k_keyName r = keyName key) (praggoAIKeys w1))
           in if length existingKey = 0
              then (let (inserted, w2) =
                          dbOp E (\<lambda>v. v\<lparr>praggoAIKeys := praggoAIKeys v @ [newKeyRow key]\<rparr>) w1
                    in if \<not> inserted then w2 else initializeDatabaseKeysFrom E keys w2)
              else initializeDatabaseKeysFrom E keys w1)"

definition initializeDatabaseKeys :: "oracles \<Rightarrow> world \<Rightarrow> world" where
  "initializeDatabaseKeys E w = initializeDatabaseKeysFrom E (apiKeys w) w"

definition initializeAPIKeys :: "oracles \<Rightarrow> world \<Rightarrow> world" where
  "initializeAPIKeys E w =
     (let w1 = restoreKeys E w;
          w2 = w1\<lparr>apiKeys := buildPool (env w1)\<rparr>
      in initializeDatabaseKeys E w2)"

definition refreshKeys :: "oracles \<Rightarrow> world \<Rightarrow> world" where
  "refreshKeys E w = initializeAPIKeys E w"

subsection \<open>The texts of generateQuestions and solveDoubt\<close>

text \<open>The literal pieces of the answers and prompts of the source.\<close>

definition chemistryBangla :: jsstring where
  "chemistryBangla = [2480, 2488, 2494, 2479, 2492, 2472]"

definition ictBangla :: jsstring where
  "ictBangla = [2468, 2469, 2509, 2479, 32, 2451, 32, 2479, 2507, 2455, 2494, 2479, 2507, 2455,
     32, 2474, 2509, 2480, 2479, 2497, 2453, 2509, 2468, 2495]"

definition sampleOption1 :: jsstring where
  "sampleOption1 = [2476, 2495, 2453, 2482, 2509, 2474, 32, 2453]"

definition sampleOption2 :: jsstring where
  "sampleOption2 = [2476, 2495, 2453, 2482, 2509, 2474, 32, 2454]"

definition sampleOption3 :: jsstring where
  "sampleOption3 = [2476, 2495, 2453, 2482, 2509, 2474, 32, 2455]"

definition sampleOption4 :: jsstring where
  "sampleOption4 = [2476, 2495, 2453, 2482, 2509, 2474, 32, 2456]"

definition sampleAnswer :: jsstring where
  "sampleAnswer = u16 ''Praggo AI '' @ [2488, 2464, 2495, 2453, 32, 2441, 2468, 2509, 2468, 2480,
     32, 2447, 2454, 2494, 2472, 2503, 32, 2474, 2509, 2480, 2470, 2494, 2472, 32, 2453, 2480,
     2476, 2503, 2404] @ u16 '' sir '' @ [2447, 2480, 32, 2488, 2494, 2469, 2503, 32, 2479,
     2507, 2455, 2494, 2479, 2507, 2455, 32, 2453, 2480, 2497, 2472, 2404]"

definition sampleText1 :: jsstring where
  "sampleText1 = [2472, 2478, 2497, 2472, 2494, 32]"

definition sampleText2 :: jsstring where
  "sampleText2 = [32, 2474, 2509, 2480, 2486, 2509, 2472, 32]"

definition sampleText3 :: jsstring where
  "sampleText3 = [32, 2488, 2509, 2468, 2480, 41]"

definition academicBangla :: jsstring where
  "academicBangla = [2447, 2453, 2494, 2465, 2503, 2478, 2495, 2453]"

definition admissionBangla :: jsstring where
  "admissionBangla = [2477, 2480, 2509, 2468, 2495, 32, 2474, 2480, 2496, 2453, 2509, 2487, 2494]"

definition class9to10Bangla :: jsstring where
  "class9to10Bangla = [2472, 2476, 2478, 45, 2470, 2486, 2478, 32, 2486, 2509, 2480, 2503, 2467,
     2495]"

definition classHscBangla :: jsstring where
  "classHscBangla = [2447, 2453, 2494, 2470, 2486, 45, 2470, 2509, 2476, 2494, 2470, 2486, 32,
     2486, 2509, 2480, 2503, 2467, 2495] @ u16 '' (HSC)''"

definition mixedLevels :: jsstring where
  "mixedLevels = [2488, 2489, 2460, 44, 32, 2478, 2471, 2509, 2479, 2478, 32, 2451, 32, 2460,
     2463, 2495, 2482, 32, 2488, 2509, 2468, 2480, 2503, 2480, 32, 2478, 2495, 2486, 2509, 2480,
     2467]"

definition easyLevels :: jsstring where
  "easyLevels = [2488, 2489, 2460, 32, 2488, 2509, 2468, 2480, 2503, 2480]"

definition mediumLevels :: jsstring where
  "mediumLevels = [2478, 2471, 2509, 2479, 2478, 32, 2488, 2509, 2468, 2480, 2503, 2480]"

definition hardLevels :: jsstring where
  "hardLevels = [2460, 2463, 2495, 2482, 32, 2488, 2509, 2468, 2480, 2503, 2480]"

definition mathBasedDescription :: jsstring where
  "mathBasedDescription = [2455, 2467, 2495, 2468, 32, 2477, 2495, 2468, 2509, 2468, 2495, 2453,
     32, 2474, 2509, 2480, 2486, 2509, 2472, 32, 45, 32, 2455, 2467, 2472, 2494, 44, 32, 2488,
     2498, 2468, 2509, 2480, 32, 2474, 2509, 2480, 2479, 2492, 2507, 2455, 44, 32, 2488, 2434,
     2454, 2509, 2479, 2494, 2455, 2468, 32, 2488, 2478, 2488, 2509, 2479, 2494]"

definition theoryBasedDescription :: jsstring where
  "theoryBasedDescription = [2468, 2468, 2509, 2468, 2509, 2476, 32, 2477, 2495, 2468, 2509, 2468,
     2495, 2453, 32, 2474, 2509, 2480, 2486, 2509, 2472, 32, 45, 32, 2471, 2494, 2480, 2467,
     2494, 44, 32, 2488, 2434, 2460, 2509, 2462, 2494, 44, 32, 2476, 2509, 2479, 2494, 2454,
     2509, 2479, 2494, 44, 32, 2468, 2497, 2482, 2472, 2494]"

definition mixedDescription :: jsstring where
  "mixedDescription = [2478, 2495, 2486, 2509, 2480, 32, 2474, 2509, 2480, 2486, 2509, 2472, 32,
     45, 32, 2455, 2467, 2495, 2468, 32, 2451, 32, 2468, 2468, 2509, 2468, 2509, 2476, 32, 2441,
     2477, 2479, 2492, 32, 2471, 2480, 2472, 2503, 2480]"

definition questionsText1 :: jsstring where
  "questionsText1 = [2438, 2474, 2472, 2495, 32, 34] @ u16 ''Praggo AI'' @ [34, 32, 45, 32, 2476,
     2494, 2434, 2482, 2494, 2470, 2503, 2486, 2503, 2480, 32, 2486, 2495, 2453, 2509, 2487,
     2494, 2480, 32, 2460, 2472, 2509, 2479, 32, 2476, 2495, 2486, 2503, 2487, 2477, 2494, 2476,
     2503, 32, 2465, 2495, 2460, 2494, 2439, 2472, 32, 2453, 2480, 2494, 32, 2447, 2453, 2463,
     2495] @ u16 '' AI '' @ [2486, 2495, 2453, 2509, 2487, 2494, 32, 2488, 2489, 2494, 2479,
     2492, 2453, 2404, 10, 10, 55356, 57286] @ u16 '' Chemistry & ICT Care by Belal Sir '' @
     [2453, 2507, 2458, 2495, 2434, 32, 2488, 2503, 2472, 2509, 2463, 2494, 2480, 2503, 2480,
     32, 2460, 2472, 2509, 2479, 32]"

definition questionsText2 :: jsstring where
  "questionsText2 = [2463, 2495, 32]"

definition questionsText3 :: jsstring where
  "questionsText3 = [32, 2474, 2509, 2480, 2486, 2509, 2472, 32, 2468, 2504, 2480, 2495, 32, 2453,
     2480, 2497, 2472, 2404, 10, 10, 55356, 57263] @
     u16 '' **NEXT LEVEL BANGLADESHI ACADEMIC SYSTEM**'' @ [10, 2438, 2474, 2472, 2495, 32,
     2447, 2453, 2460, 2472, 32, 2536, 2534, 43, 32, 2476, 2459, 2480, 2503, 2480, 32, 2437,
     2477, 2495, 2460, 2509, 2462, 32]"

definition questionsText4 :: jsstring where
  "questionsText4 = [32, 2476, 2495, 2486, 2503, 2487, 2460, 2509, 2462, 32, 2486, 2495, 2453,
     2509, 2487, 2453, 32, 2479, 2495, 2472, 2495, 32, 2476, 2494, 2434, 2482, 2494, 2470, 2503,
     2486, 2503, 2480, 32, 2486, 2496, 2480, 2509, 2487, 32, 2476, 2495, 2486, 2509, 2476, 2476,
     2495, 2470, 2509, 2479, 2494, 2482, 2479, 2492, 2503, 2480, 32, 2477, 2480, 2509, 2468,
     2495, 32, 2474, 2480, 2496, 2453, 2509, 2487, 2494, 2479, 2492, 32, 2474, 2509, 2480, 2486,
     2509, 2472, 32, 2474, 2509, 2480, 2467, 2479, 2492, 2472, 32, 2453, 2480, 2503, 2472, 2404,
     10, 10, 55357, 56538, 32, 2474, 2509, 2480, 2486, 2509, 2472, 2503, 2480, 32, 2476, 2495,
     2476, 2480, 2467, 58, 10, 45, 32, 2476, 2495, 2487, 2479, 2492, 58, 32]"

definition questionsText5 :: jsstring where
  "questionsText5 = [41, 10, 45, 32, 2474, 2480, 2496, 2453, 2509, 2487, 2494, 2480, 32, 2471,
     2480, 2472, 58, 32]"

definition questionsText6 :: jsstring where
  "questionsText6 = [10, 45, 32, 2486, 2509, 2480, 2503, 2467, 2495, 58, 32]"

definition questionsText7 :: jsstring where
  "questionsText7 = [10, 45, 32, 2437, 2471, 2509, 2479, 2494, 2479, 2492, 47, 2463, 2474, 2495,
     2453, 58, 32]"

definition questionsText8 :: jsstring where
  "questionsText8 = [10, 45, 32, 2474, 2509, 2480, 2486, 2509, 2472, 2503, 2480, 32, 2471, 2480,
     2472, 58, 32]"

definition questionsText9 :: jsstring where
  "questionsText9 = [10, 45, 32, 2474, 2509, 2480, 2486, 2509, 2472, 2503, 2480, 32, 2476, 2495,
     2487, 2479, 2492, 2476, 2488, 2509, 2468, 2497, 58, 32]"

definition questionsText10 :: jsstring where
  "questionsText10 = [10, 45, 32, 2453, 2464, 2495, 2472, 2468, 2494, 2480, 32, 2488, 2509, 2468,
     2480, 58, 32]"

definition questionsText11 :: jsstring where
  "questionsText11 = [10, 10, 55356, 56807, 55356, 56809] @ u16 '' NCTB '' @ [2453, 2494, 2480,
     2495, 2453, 2497, 2482, 2494, 2478, 32, 2451, 32, 2476, 2494, 2434, 2482, 2494, 2470, 2503,
     2486, 2503, 2480, 32, 2486, 2495, 2453, 2509, 2487, 2494, 2476, 2509, 2479, 2476, 2488,
     2509, 2469, 2494, 32, 2437, 2472, 2497, 2479, 2494, 2479, 2492, 2496, 58, 10, 10]"

definition questionsText12 :: jsstring where
  "questionsText12 = [55358, 56814, 32, 42, 42, 2455, 2467, 2495, 2468, 32, 2477, 2495, 2468,
     2509, 2468, 2495, 2453, 32, 2474, 2509, 2480, 2486, 2509, 2472, 32, 2468, 2504, 2480, 2495,
     2480, 32, 2476, 2495, 2486, 2503, 2487, 32, 2472, 2495, 2480, 2509, 2470, 2503, 2486, 2472,
     2494, 58, 42, 42, 10, 45, 32, 2488, 2498, 2468, 2509, 2480, 32, 2474, 2509, 2480, 2479,
     2492, 2507, 2455, 32, 2477, 2495, 2468, 2509, 2468, 2495, 2453, 32, 2474, 2509, 2480, 2486,
     2509, 2472, 32, 2468, 2504, 2480, 2495, 32, 2453, 2480, 2497, 2472, 10, 45, 32, 2488, 2434,
     2454, 2509, 2479, 2494, 2455, 2468, 32, 2455, 2467, 2472, 2494, 32, 2451, 32, 2489, 2495,
     2488, 2494, 2476, 45, 2472, 2495, 2453, 2494, 2486, 32, 2437, 2472, 2509, 2468, 2480, 2509,
     2477, 2497, 2453, 2509, 2468, 32, 2453, 2480, 2497, 2472, 10, 45, 32, 2478, 2494, 2472, 32,
     2472, 2495, 2480, 2509, 2467, 2479, 2492, 44, 32, 2474, 2480, 2495, 2478, 2494, 2467, 32,
     2455, 2467, 2472, 2494, 44, 32, 2486, 2468, 2453, 2480, 2494, 32, 2489, 2495, 2488, 2494,
     2476, 10, 45, 32, 2455, 2509, 2480, 2494, 2475, 44, 32, 2458, 2494, 2480, 2509, 2463, 44,
     32, 2463, 2503, 2476, 2495, 2482, 32, 2469, 2503, 2453, 2503, 32, 2468, 2469, 2509, 2479,
     32, 2476, 2495, 2486, 2509, 2482, 2503, 2487, 2467, 10, 45, 32, 2476, 2494, 2488, 2509,
     2468, 2476, 32, 2460, 2496, 2476, 2472, 2503, 2480, 32, 2465, 2503, 2463, 2494, 32, 2470,
     2495, 2479, 2492, 2503, 32, 2455, 2494, 2467, 2495, 2468, 2495, 2453, 32, 2488, 2478, 2488,
     2509, 2479, 2494, 10, 45, 32, 2471, 2494, 2474, 2503, 32, 2471, 2494, 2474, 2503, 32, 2488,
     2478, 2494, 2471, 2494, 2472, 2479, 2507, 2455, 2509, 2479, 32, 2455, 2467, 2472, 2494,
     2478, 2498, 2482, 2453, 32, 2474, 2509, 2480, 2486, 2509, 2472]"

definition questionsText13 :: jsstring where
  "questionsText13 = [55357, 56534, 32, 42, 42, 2468, 2468, 2509, 2468, 2509, 2476, 32, 2477,
     2495, 2468, 2509, 2468, 2495, 2453, 32, 2474, 2509, 2480, 2486, 2509, 2472, 32, 2468, 2504,
     2480, 2495, 2480, 32, 2476, 2495, 2486, 2503, 2487, 32, 2472, 2495, 2480, 2509, 2470, 2503,
     2486, 2472, 2494, 58, 42, 42, 10, 45, 32, 2471, 2494, 2480, 2467, 2494, 44, 32, 2488, 2434,
     2460, 2509, 2462, 2494, 44, 32, 2476, 2509, 2479, 2494, 2454, 2509, 2479, 2494, 32, 2477,
     2495, 2468, 2509, 2468, 2495, 2453, 32, 2474, 2509, 2480, 2486, 2509, 2472, 10, 45, 32,
     2468, 2497, 2482, 2472, 2494, 2478, 2498, 2482, 2453, 32, 2476, 2495, 2486, 2509, 2482,
     2503, 2487, 2467, 32, 2451, 32, 2474, 2494, 2480, 2509, 2469, 2453, 2509, 2479, 10, 45, 32,
     2453, 2494, 2480, 2467, 45, 2475, 2482, 2494, 2475, 2482, 32, 2488, 2478, 2509, 2474, 2480,
     2509, 2453, 32, 2476, 2509, 2479, 2494, 2454, 2509, 2479, 2494, 10, 45, 32, 2474, 2509,
     2480, 2453, 2509, 2480, 2495, 2479, 2492, 2494, 32, 2476, 2480, 2509, 2467, 2472, 2494, 32,
     2451, 32, 2453, 2509, 2480, 2478, 2471, 2494, 2480, 2494, 10, 45, 32, 2476, 2504, 2486,
     2495, 2487, 2509, 2463, 2509, 2479, 44, 32, 2455, 2497, 2467, 2494, 2476, 2482, 2496, 32,
     2451, 32, 2474, 2509, 2480, 2479, 2492, 2507, 2455, 32, 2476, 2480, 2509, 2467, 2472, 2494,
     10, 45, 32, 2468, 2494, 2468, 2509, 2468, 2509, 2476, 2495, 2453, 32, 2460, 2509, 2462,
     2494, 2472, 32, 2451, 32, 2476, 2507, 2461, 2494, 2474, 2465, 2492, 2494, 32, 2474, 2480,
     2496, 2453, 2509, 2487, 2494]"

definition questionsText14 :: jsstring where
  "questionsText14 = [55357, 56580, 32, 42, 42, 2478, 2495, 2486, 2509, 2480, 32, 2474, 2509,
     2480, 2486, 2509, 2472, 32, 2468, 2504, 2480, 2495, 2480, 32, 2472, 2495, 2480, 2509, 2470,
     2503, 2486, 2472, 2494, 58, 42, 42, 10, 45, 32, 2455, 2467, 2495, 2468, 32, 2451, 32, 2468,
     2468, 2509, 2468, 2509, 2476, 32, 2441, 2477, 2479, 2492, 32, 2471, 2480, 2472, 2503, 2480,
     32, 2474, 2509, 2480, 2486, 2509, 2472, 32, 2468, 2504, 2480, 2495, 32, 2453, 2480, 2497,
     2472, 10, 45, 32, 2453, 2495, 2459, 2497, 32, 2474, 2509, 2480, 2486, 2509, 2472, 2503, 32,
     2455, 2467, 2472, 2494, 32, 2451, 32, 2453, 2495, 2459, 2497, 2468, 2503, 32, 2471, 2494,
     2480, 2467, 2494, 32, 2469, 2494, 2453, 2476, 2503, 10, 45, 32, 2468, 2494, 2468, 2509,
     2468, 2509, 2476, 2495, 2453, 32, 2460, 2509, 2462, 2494, 2472, 2503, 2480, 32, 2488, 2494,
     2469, 2503, 32, 2476, 2509, 2479, 2476, 2489, 2494, 2480, 2495, 2453, 32, 2474, 2509, 2480,
     2479, 2492, 2507, 2455, 10, 45, 32, 2488, 2498, 2468, 2509, 2480, 32, 2476, 2509, 2479,
     2494, 2454, 2509, 2479, 2494, 32, 2447, 2476, 2434, 32, 2468, 2494, 2480, 32, 2474, 2509,
     2480, 2479, 2492, 2507, 2455, 32, 2441, 2477, 2479, 2492, 2439]"

definition questionsText15 :: jsstring where
  "questionsText15 = [10, 10]"

definition questionsText16 :: jsstring where
  "questionsText16 = [55358, 56810, 32, 2480, 2488, 2494, 2479, 2492, 2472, 2503, 2480, 32, 2460,
     2472, 2509, 2479, 32, 2476, 2495, 2486, 2503, 2487, 32, 2472, 2495, 2480, 2509, 2470, 2503,
     2486, 2472, 2494, 58, 10, 45, 32, 2476, 2494, 2434, 2482, 2494, 2470, 2503, 2486, 2503,
     2480] @ u16 '' NCTB '' @ [2474, 2494, 2464, 2509, 2479, 2476, 2439, 32, 2437, 2472, 2497,
     2479, 2494, 2479, 2492, 2496, 10, 45, 32, 2480, 2494, 2488, 2494, 2479, 2492, 2472, 2495,
     2453, 32, 2488, 2498, 2468, 2509, 2480, 32, 2451, 32, 2476, 2495, 2453, 2509, 2480, 2495,
     2479, 2492, 2494, 32, 2476, 2494, 2434, 2482, 2494, 2479, 2492, 10, 45, 32, 2470, 2504,
     2472, 2472, 2509, 2470, 2495, 2472, 32, 2460, 2496, 2476, 2472, 2503, 2480, 32, 2488, 2494,
     2469, 2503, 32, 2488, 2478, 2509, 2474, 2480, 2509, 2453, 2495, 2468, 32, 2441, 2470, 2494,
     2489, 2480, 2467, 10] @ u16 ''- HSC/SSC '' @ [2476, 2507, 2480, 2509, 2465, 32, 2474, 2509,
     2480, 2486, 2509, 2472, 2503, 2480, 32, 2471, 2494, 2480, 2494, 32, 2437, 2472, 2497, 2488,
     2480, 2467, 10, 45, 32, 2476, 2494, 2434, 2482, 2494, 2470, 2503, 2486, 2496, 32, 2474,
     2509, 2480, 2503, 2453, 2509, 2487, 2494, 2474, 2463, 2503, 2480, 32, 2441, 2470, 2494,
     2489, 2480, 2467]"

definition questionsText17 :: jsstring where
  "questionsText17 = [55357, 56507] @ u16 '' ICT '' @ [2447, 2480, 32, 2460, 2472, 2509, 2479, 32,
     2476, 2495, 2486, 2503, 2487, 32, 2472, 2495, 2480, 2509, 2470, 2503, 2486, 2472, 2494, 58,
     10, 45, 32, 2476, 2494, 2434, 2482, 2494, 2470, 2503, 2486, 2503, 2480, 32, 2465, 2495,
     2460, 2495, 2463, 2494, 2482, 32, 2479, 2497, 2455, 2503, 2480, 32, 2474, 2509, 2480, 2503,
     2453, 2509, 2487, 2494, 2474, 2463, 10, 45, 32, 2474, 2509, 2480, 2507, 2455, 2509, 2480,
     2494, 2478, 2495, 2434, 44, 32, 2465, 2503, 2463, 2494, 2476, 2503, 2488, 44, 32, 2472,
     2503, 2463, 2451, 2479, 2492, 2494, 2480, 2509, 2453, 10, 45, 32, 2476, 2509, 2479, 2476,
     2489, 2494, 2480, 2495, 2453, 32, 2488, 2478, 2488, 2509, 2479, 2494, 32, 2451, 32, 2488,
     2478, 2494, 2471, 2494, 2472, 10, 45, 32, 2476, 2494, 2434, 2482, 2494, 2470, 2503, 2486,
     2503, 2480, 32, 2474, 2509, 2480, 2479, 2497, 2453, 2509, 2468, 2495, 32, 2454, 2494, 2468,
     2503, 2480, 32, 2441, 2470, 2494, 2489, 2480, 2467, 10] @ u16 ''- HSC ICT '' @ [2476, 2507,
     2480, 2509, 2465, 32, 2488, 2495, 2482, 2503, 2476, 2494, 2488, 32, 2437, 2472, 2497, 2479,
     2494, 2479, 2492, 2496]"

definition questionsText18 :: jsstring where
  "questionsText18 = [10, 10, 55357, 56523] @ u16 '' JSON '' @ [2475, 2480, 2478, 2509, 2479,
     2494, 2463, 32, 40, 2476, 2494, 2434, 2482, 2494, 2479, 2492, 32, 2441, 2468, 2509, 2468,
     2480, 41, 58, 10]"

definition questionsText19 :: jsstring where
  "questionsText19 = u16 ''MCQ '' @ [2475, 2480, 2478, 2509, 2479, 2494, 2463, 58]"

definition questionsText20 :: jsstring where
  "questionsText20 = [67, 81, 32, 2475, 2480, 2478, 2509, 2479, 2494, 2463, 58]"

definition questionsText21 :: jsstring where
  "questionsText21 = [2488, 2499, 2460, 2472, 2486, 2496, 2482, 32, 2474, 2509, 2480, 2486, 2509,
     2472, 32, 2475, 2480, 2478, 2509, 2479, 2494, 2463, 58]"

definition questionsText22 :: jsstring where
  "questionsText22 = [10, 91, 123, 34] @ u16 ''questionText'' @ [34, 58, 32, 34, 2476, 2494, 2434,
     2482, 2494, 2479, 2492, 32, 2474, 2509, 2480, 2486, 2509, 2472, 34, 44, 32, 34] @
     u16 ''questionType'' @ [34, 58, 32, 34]"

definition questionsText23 :: jsstring where
  "questionsText23 = [34, 44, 32]"

definition questionsText24 :: jsstring where
  "questionsText24 = [34] @ u16 ''options'' @ [34, 58, 32, 91, 34, 2453] @ u16 '') ...'' @ [34,
     44, 32, 34, 2454] @ u16 '') ...'' @ [34, 44, 32, 34, 2455] @ u16 '') ...'' @ [34, 44, 32,
     34, 2456] @ u16 '') ...'' @ [34, 93, 44, 32, 34] @ u16 ''correctAnswer'' @ [34, 58, 32, 34,
     2453] @ u16 '') ...'' @ [34, 44]"

definition questionsText25 :: jsstring where
  "questionsText25 = [34] @ u16 ''options'' @ [34] @ u16 '': null, '' @ [34] @
     u16 ''correctAnswer'' @ [34] @ u16 '': null,''"

definition questionsText26 :: jsstring where
  "questionsText26 = [32, 34] @ u16 ''answer'' @ [34, 58, 32, 34, 2476, 2494, 2434, 2482, 2494,
     2479, 2492, 32, 2476, 2495, 2488, 2509, 2468, 2494, 2480, 2495, 2468, 32, 2441, 2468, 2509,
     2468, 2480, 34, 44, 32, 34] @ u16 ''marks'' @ [34, 58, 32]"

definition parseFailedMessage :: jsstring where
  "parseFailedMessage = u16 ''Praggo AI '' @ [2469, 2503, 2453, 2503, 32, 2488, 2464, 2495, 2453,
     32, 2475, 2480, 2478, 2509, 2479, 2494, 2463, 2503, 32, 2441, 2468, 2509, 2468, 2480, 32,
     2474, 2494, 2451, 2479, 2492, 2494, 32, 2479, 2494, 2479, 2492, 2472, 2495, 2404]"

definition noJsonMessage :: jsstring where
  "noJsonMessage = u16 ''Praggo AI '' @ [2469, 2503, 2453, 2503] @ u16 '' JSON '' @ [2475, 2480,
     2478, 2509, 2479, 2494, 2463, 2503, 32, 2441, 2468, 2509, 2468, 2480, 32, 2474, 2494, 2451,
     2479, 2492, 2494, 32, 2479, 2494, 2479, 2492, 2472, 2495, 2404]"

definition demoText1 :: jsstring where
  "demoText1 = [55358, 56598] @ u16 '' Praggo AI '' @ [2488, 2478, 2494, 2471, 2494, 2472, 32, 40,
     2465, 2503, 2478, 2507, 32, 2478, 2507, 2465, 41, 10, 10, 2438, 2474, 2472, 2494, 2480,
     32]"

definition demoText2 :: jsstring where
  "demoText2 = [32, 2474, 2509, 2480, 2486, 2509, 2472, 58, 32, 34]"

definition demoText3 :: jsstring where
  "demoText3 = [34, 10, 10, 2447, 2463, 2495] @ u16 '' Praggo AI '' @ [2470, 2509, 2476, 2494,
     2480, 2494, 32, 2474, 2509, 2480, 2470, 2468, 2509, 2468, 32, 2476, 2495, 2488, 2509, 2468,
     2494, 2480, 2495, 2468, 32, 2476, 2509, 2479, 2494, 2454, 2509, 2479, 2494, 32, 2489, 2476,
     2503, 2404, 32, 2488, 2464, 2495, 2453] @ u16 '' AI '' @ [2488, 2478, 2494, 2471, 2494,
     2472, 32, 2474, 2503, 2468, 2503] @ u16 '' sir '' @ [2447, 2480, 32, 2488, 2494, 2469,
     2503, 32, 2479, 2507, 2455, 2494, 2479, 2507, 2455, 32, 2453, 2480, 2497, 2472, 2404]"

definition doubtText1 :: jsstring where
  "doubtText1 = [2438, 2474, 2472, 2495, 32, 34] @ u16 ''Praggo AI'' @ [34, 32, 45, 32, 2476,
     2494, 2434, 2482, 2494, 2470, 2503, 2486, 2503, 2480, 32, 2486, 2495, 2453, 2509, 2487,
     2494, 2480, 32, 2460, 2472, 2509, 2479, 32, 2476, 2495, 2486, 2503, 2487, 2477, 2494, 2476,
     2503, 32, 2468, 2504, 2480, 2495, 32, 2447, 2453, 2463, 2495] @ u16 '' AI '' @ [2486, 2495,
     2453, 2509, 2487, 2494, 32, 2488, 2489, 2494, 2479, 2492, 2453, 2404, 10, 10, 55356, 57235]
     @ u16 '' Chemistry & ICT Care by Belal Sir '' @ [2453, 2507, 2458, 2495, 2434, 32, 2488,
     2503, 2472, 2509, 2463, 2494, 2480, 2503, 2480, 32, 2447, 2453, 2460, 2472, 32, 2476, 2495,
     2486, 2503, 2487, 2460, 2509, 2462, 32]"

definition doubtText2 :: jsstring where
  "doubtText2 = [32, 2486, 2495, 2453, 2509, 2487, 2453, 32, 2489, 2495, 2488, 2503, 2476, 2503,
     32, 2441, 2468, 2509, 2468, 2480, 32, 2470, 2495, 2472, 2404, 10, 10, 55357, 56541, 32,
     2486, 2495, 2453, 2509, 2487, 2494, 2480, 2509, 2469, 2496, 2480, 32, 2474, 2509, 2480,
     2486, 2509, 2472, 58, 32]"

definition doubtText3 :: jsstring where
  "doubtText3 = [10, 10, 55356, 56807, 55356, 56809, 32, 42, 42, 2476, 2494, 2434, 2482, 2494,
     2470, 2503, 2486, 2503, 2480, 32, 2488, 2480, 2509, 2476, 2507, 2458, 2509, 2458, 32, 2478,
     2494, 2472, 2503, 2480, 32, 2486, 2495, 2453, 2509, 2487, 2494, 32, 2476, 2509, 2479, 2476,
     2488, 2509, 2469, 2494, 32, 2437, 2472, 2497, 2479, 2494, 2479, 2492, 2496, 42, 42, 32,
     2447, 2453, 2463, 2495, 32, 2476, 2495, 2486, 2503, 2487, 2460, 2509, 2462, 32, 2478, 2494,
     2472, 2503, 2480, 32, 2488, 2478, 2494, 2471, 2494, 2472, 32, 2474, 2509, 2480, 2470, 2494,
     2472, 32, 2453, 2480, 2497, 2472, 58, 10, 10, 55357, 56534] @ u16 '' NCTB '' @ [2453, 2494,
     2480, 2495, 2453, 2497, 2482, 2494, 2478, 32, 2536, 2534, 2536, 2538, 32, 2437, 2472, 2497,
     2479, 2494, 2479, 2492, 2496, 32, 2488, 2480, 2509, 2476, 2486, 2503, 2487, 32, 2438, 2474,
     2465, 2503, 2463, 10, 55356, 57286, 32, 2466, 2494, 2476, 2495, 47, 2476, 2497, 2479, 2492,
     2503, 2463, 47, 2478, 2503, 2465, 2495, 2453, 2503, 2482, 32, 2477, 2480, 2509, 2468, 2495,
     32, 2474, 2480, 2496, 2453, 2509, 2487, 2494, 2480, 32, 2478, 2494, 2472, 32, 2476, 2460,
     2494, 2479, 2492, 32, 2480, 2503, 2454, 2503, 10, 55356, 57263, 32, 2476, 2494, 2434, 2482,
     2494, 2470, 2503, 2486, 2503, 2480, 32, 2488, 2494, 2434, 2488, 2509, 2453, 2499, 2468,
     2495, 2453, 32, 2451, 32, 2477, 2508, 2455, 2507, 2482, 2495, 2453, 32, 2474, 2509, 2480,
     2503, 2453, 2509, 2487, 2494, 2474, 2463, 2503, 32, 2488, 2478, 2494, 2471, 2494, 2472, 10,
     10]"

definition doubtText4 :: jsstring where
  "doubtText4 = [55358, 56810, 32, 2480, 2488, 2494, 2479, 2492, 2472, 2503, 2480, 32, 2460, 2472,
     2509, 2479, 58, 10, 45, 32, 2471, 2494, 2474, 2503, 32, 2471, 2494, 2474, 2503, 32, 2488,
     2478, 2494, 2471, 2494, 2472, 32, 2488, 2489, 32, 2480, 2494, 2488, 2494, 2479, 2492, 2472,
     2495, 2453, 32, 2488, 2478, 2496, 2453, 2480, 2467, 10, 45, 32, 2438, 2467, 2476, 2495,
     2453, 32, 2488, 2498, 2468, 2509, 2480, 32, 2451, 32, 2453, 2494, 2464, 2494, 2478, 2507,
     32, 2458, 2495, 2468, 2509, 2480, 32, 40, 2463, 2503, 2453, 2509, 2488, 2463, 32, 2475,
     2480, 2478, 2509, 2479, 2494, 2463, 2503, 41, 10, 45, 32, 2476, 2494, 2434, 2482, 2494,
     2470, 2503, 2486, 2503, 2480, 32, 2470, 2504, 2472, 2472, 2509, 2470, 2495, 2472, 32, 2460,
     2496, 2476, 2472, 2503, 2480, 32, 2441, 2470, 2494, 2489, 2480, 2467, 10] @
     u16 ''- HSC/SSC '' @ [2476, 2507, 2480, 2509, 2465, 32, 2474, 2480, 2496, 2453, 2509, 2487,
     2494, 2480, 32, 2474, 2509, 2480, 2503, 2453, 2509, 2487, 2494, 2474, 2463, 2503, 32, 2476,
     2509, 2479, 2494, 2454, 2509, 2479, 2494, 10, 45, 32, 2472, 2495, 2480, 2494, 2474, 2468,
     2509, 2468, 2494, 32, 2451, 32, 2474, 2480, 2495, 2476, 2503, 2486, 2455, 2468, 32, 2476,
     2495, 2487, 2479, 2492, 2494, 2476, 2482, 2496, 10, 45, 32, 2437, 2468, 2495, 2480, 2495,
     2453, 2509, 2468, 32, 2437, 2472, 2497, 2486, 2496, 2482, 2472, 32, 2474, 2509, 2480, 2486,
     2509, 2472, 2503, 2480, 32, 2474, 2480, 2494, 2478, 2480, 2509, 2486]"

definition doubtText5 :: jsstring where
  "doubtText5 = [55357, 56507] @ u16 '' ICT '' @ [2447, 2480, 32, 2460, 2472, 2509, 2479, 58, 10,
     45, 32, 2476, 2509, 2479, 2476, 2489, 2494, 2480, 2495, 2453, 32, 2453, 2507, 2465, 32,
     2441, 2470, 2494, 2489, 2480, 2467, 32, 40, 2479, 2470, 2495, 32, 2474, 2509, 2480, 2479,
     2492, 2507, 2460, 2472, 32, 2489, 2479, 2492, 41, 10, 45, 32, 2474, 2509, 2480, 2479, 2497,
     2453, 2509, 2468, 2495, 2455, 2468, 32, 2471, 2494, 2480, 2467, 2494, 2480, 32, 2488, 2489,
     2460, 32, 2476, 2509, 2479, 2494, 2454, 2509, 2479, 2494, 10, 45, 32, 2476, 2494, 2434,
     2482, 2494, 2470, 2503, 2486, 2503, 2480, 32, 2474, 2509, 2480, 2479, 2497, 2453, 2509,
     2468, 2495, 32, 2454, 2494, 2468, 2503, 2480, 32, 2476, 2494, 2488, 2509, 2468, 2476, 32,
     2474, 2509, 2480, 2479, 2492, 2507, 2455, 10] @ u16 ''- HSC ICT '' @ [2488, 2495, 2482,
     2503, 2476, 2494, 2488, 32, 2437, 2472, 2497, 2479, 2494, 2479, 2492, 2496, 32, 2476, 2495,
     2486, 2470, 32, 2476, 2480, 2509, 2467, 2472, 2494, 10, 45, 32, 2477, 2476, 2495, 2487,
     2509, 2479, 2510, 32, 2453, 2509, 2479, 2494, 2480, 2495, 2479, 2492, 2494, 2480, 32, 2488,
     2434, 2479, 2507, 2455, 10, 45, 32, 2437, 2472, 2497, 2486, 2496, 2482, 2472, 2503, 2480,
     32, 2460, 2472, 2509, 2479, 32, 2438, 2480, 2451, 32, 2480, 2495, 2488, 2507, 2480, 2509,
     2488]"

definition doubtText6 :: jsstring where
  "doubtText6 = [10, 10, 10024, 32, 2441, 2468, 2509, 2468, 2480, 2463, 2495, 32, 2437, 2476,
     2486, 2509, 2479, 2439, 58, 10, 45, 32, 2488, 2489, 2460, 32, 2451, 32, 2476, 2507, 2471,
     2455, 2478, 2509, 2479, 32, 2476, 2494, 2434, 2482, 2494, 2479, 2492, 32, 2482, 2495, 2454,
     2497, 2472, 10, 45, 32, 2471, 2494, 2474, 2503, 32, 2471, 2494, 2474, 2503, 32, 2476, 2509,
     2479, 2494, 2454, 2509, 2479, 2494, 32, 2453, 2480, 2497, 2472, 10, 45, 32, 2476, 2494,
     2434, 2482, 2494, 2470, 2503, 2486, 2496, 32, 2486, 2495, 2453, 2509, 2487, 2494, 2480,
     2509, 2469, 2496, 2470, 2503, 2480, 32, 2460, 2472, 2509, 2479, 32, 2474, 2509, 2480, 2494,
     2488, 2457, 2509, 2455, 2495, 2453, 32, 2441, 2470, 2494, 2489, 2480, 2467, 32, 2470, 2495,
     2472, 10, 45, 32, 2441, 2510, 2488, 2494, 2489, 2478, 2498, 2482, 2453, 32, 2451, 32, 2486,
     2495, 2453, 2509, 2487, 2467, 2496, 2479, 2492, 32, 2463, 2507, 2472, 32, 2476, 2509, 2479,
     2476, 2489, 2494, 2480, 32, 2453, 2480, 2497, 2472, 10, 10, 55356, 57263] @
     u16 '' Praggo AI '' @ [2488, 2478, 2494, 2471, 2494, 2472, 58]"

definition errorText1 :: jsstring where
  "errorText1 = [55358, 56598] @ u16 '' Praggo AI '' @ [2488, 2478, 2494, 2471, 2494, 2472, 32,
     40, 2468, 2509, 2480, 2497, 2463, 2495, 41, 10, 10, 2438, 2474, 2472, 2494, 2480, 32]"

definition errorText2 :: jsstring where
  "errorText2 = [34, 10, 10, 10060, 32]"

definition errorText3 :: jsstring where
  "errorText3 = [10, 10, 2437, 2472, 2497, 2455, 2509, 2480, 2489, 32, 2453, 2480, 2503, 32, 2453,
     2495, 2459, 2497, 2453, 2509, 2487, 2467, 32, 2474, 2480, 32, 2438, 2476, 2494, 2480, 32,
     2458, 2503, 2487, 2509, 2463, 2494, 32, 2453, 2480, 2497, 2472, 32, 2476, 2494, 32, 2486,
     2495, 2453, 2509, 2487, 2453, 2503, 2480, 32, 2488, 2494, 2489, 2494, 2479, 2509, 2479, 32,
     2472, 2495, 2472, 2404]"

subsection \<open>Placeholder questions\<close>

text \<open>One element of the array that \<open>generateQuestions\<close> returns without credentials.\<close>

record question =
  q_questionText :: jsstring
  q_questionType :: jsstring
  q_options :: "jsstring list option"
  q_correctAnswer :: "jsstring option"
  q_answer :: jsstring
  q_marks :: int

definition sampleQuestion ::
  "jsstring \<Rightarrow> jsstring \<Rightarrow> jsstring \<Rightarrow> jsstring \<Rightarrow> int \<Rightarrow> question" where
  "sampleQuestion subject chapter questionType difficulty i =
     \<lparr>q_questionText =
        (sampleText1 @ (if subject = u16 ''chemistry'' then chemistryBangla else u16 ''ICT'') @
          sampleText2 @ toStringJS (JNum (i + 1)) @ u16 '' - '' @ chapter @ u16 '' ('' @
          difficulty @ sampleText3),
      q_questionType = questionType,
      q_options =
        (if questionType = u16 ''mcq''
         then Some [sampleOption1, sampleOption2, sampleOption3, sampleOption4]
         else None),
      q_correctAnswer = (if questionType = u16 ''mcq'' then Some sampleOption1 else None),
      q_answer = sampleAnswer,
      q_marks = (if questionType = u16 ''creative'' then 10
                 else if questionType = u16 ''cq'' then 2 else 1)\<rparr>"

text \<open>
  The loop \<open>for (let i = 0; i < count; i++)\<close> that pushes one placeholder per pass; the
  requested count is an integer.
\<close>

function sampleLoop ::
  "jsstring \<Rightarrow> jsstring \<Rightarrow> jsstring \<Rightarrow> jsstring \<Rightarrow> int \<Rightarrow> int \<Rightarrow> question list \<Rightarrow>
   question list" where
  "sampleLoop subject chapter questionType difficulty count i sampleQuestions =
     (if i < count
      then sampleLoop subject chapter questionType difficulty count (i + 1)
             (sampleQuestions @ [sampleQuestion subject chapter questionType difficulty i])
      else sampleQuestions)"
  by pat_completeness auto
termination
  by (relation "measure (\<lambda>(subject, chapter, questionType, difficulty, count, i, sampleQuestions).
                            nat (count - i))") auto

declare sampleLoop.simps [simp del]

subsection \<open>The prompt and the answer of generateQuestions\<close>

definition questionsPrompt ::
  "jsstring \<Rightarrow> jsstring \<Rightarrow> jsstring \<Rightarrow> jsstring \<Rightarrow> int \<Rightarrow> jsstring \<Rightarrow> jsstring \<Rightarrow> jsstring \<Rightarrow>
   jsstring \<Rightarrow> jsstring \<Rightarrow> jsstring" where
  "questionsPrompt subject chapter questionType questionCategory count subjectBangla
     examTypeBangla classLevelBangla difficultyLevels questionCategoryDescription =
     (questionsText1 @ toStringJS (JNum count) @ questionsText2 @ difficultyLevels @ u16 '' '' @
       subjectBangla @ questionsText3 @ subjectBangla @ questionsText4 @ subjectBangla @
       u16 '' ('' @ subject @ questionsText5 @ examTypeBangla @ questionsText6 @ classLevelBangla
       @ questionsText7 @ chapter @ questionsText8 @ questionType @ questionsText9 @
       questionCategoryDescription @ questionsText10 @ difficultyLevels @ questionsText11 @ (if
       questionCategory = u16 ''math-based'' then questionsText12 else (if questionCategory =
       u16 ''theory-based'' then questionsText13 else questionsText14)) @ questionsText15 @ (if
       subject = u16 ''chemistry'' then questionsText16 else questionsText17) @ questionsText18 @
       (if questionType = u16 ''mcq'' then questionsText19 else (if questionType = u16 ''cq'' then
       questionsText20 else questionsText21)) @ questionsText22 @ questionType @ questionsText23 @
       (if questionType = u16 ''mcq'' then questionsText24 else questionsText25) @ questionsText26
       @ (if questionType = u16 ''creative'' then u16 ''10'' else (if questionType = u16 ''cq''
       then u16 ''2'' else u16 ''1'')) @ u16 ''}]'')"

text \<open>
  \<open>content.match(/\[[\s\S]*\]/)\<close>: from the first opening bracket to the last closing
  bracket after it.
\<close>

definition bracketBlock :: "jsstring \<Rightarrow> jsstring option" where
  "bracketBlock content =
     (case dropWhile (\<lambda>c. c \<noteq> 91) content of
        [] \<Rightarrow> None
      | c # rest \<Rightarrow>
          (case rev (dropWhile (\<lambda>c. c \<noteq> 93) (rev rest)) of
             [] \<Rightarrow> None
           | inner \<Rightarrow> Some (c # inner)))"

text \<open>The text after the first occurrence of a search string.\<close>

fun afterFirst :: "jsstring \<Rightarrow> jsstring \<Rightarrow> jsstring option" where
  "afterFirst n [] = (if n = [] then Some [] else None)"
| "afterFirst n (c # cs) =
     (if prefix n (c # cs) then Some (drop (length n) (c # cs)) else afterFirst n cs)"

text \<open>
  The lazy group of the second pattern, which an optional line feed and the closing fence
  follow: the shortest text before such an end.
\<close>

fun lazyGroup :: "jsstring \<Rightarrow> jsstring option" where
  "lazyGroup [] = None"
| "lazyGroup (c # cs) =
     (if prefix (u16 ''```'') (c # cs) \<or> prefix (10 # u16 ''```'') (c # cs) then Some []
      else map_option ((#) c) (lazyGroup cs))"

text \<open>
  The group of the second pattern: the fence with the label json, an optional line feed, the
  lazy group, an optional line feed and the closing fence.
\<close>

definition fencedJson :: "jsstring \<Rightarrow> jsstring option" where
  "fencedJson content =
     (case afterFirst (u16 ''```json'') content of
        None \<Rightarrow> None
      | Some rest \<Rightarrow>
          lazyGroup (case rest of [] \<Rightarrow> [] | c # cs \<Rightarrow> if c = 10 then cs else c # cs))"

definition jsonMatch :: "jsstring \<Rightarrow> jsstring option" where
  "jsonMatch content =
     (case bracketBlock content of Some block \<Rightarrow> Some block | None \<Rightarrow> fencedJson content)"

text \<open>
  What \<open>generateQuestions\<close> returns: the placeholders, or whatever \<open>JSON.parse\<close> made of the
  backend's text.
\<close>

datatype 'j questions = Samples "question list" | Parsed 'j

text \<open>\<open>generateQuestions\<close>. \<open>JSON.parse\<close> is a parameter: it gives \<open>None\<close> where it throws.\<close>

definition generateQuestions ::
  "oracles \<Rightarrow> (jsstring \<Rightarrow> 'j option) \<Rightarrow> jsstring \<Rightarrow> jsstring \<Rightarrow> jsstring \<Rightarrow> jsstring \<Rightarrow> jsstring \<Rightarrow>
   jsstring \<Rightarrow> jsstring \<Rightarrow> int \<Rightarrow> jsstring \<Rightarrow> user_role \<Rightarrow> world \<Rightarrow> (exn + 'j questions) \<times> world" where
  "generateQuestions E parseJSON subject examType classLevel chapter questionType
     questionCategory difficulty count userId userRole w =
     (if length (apiKeys w) = 0
      then (Inr (Samples (sampleLoop subject chapter questionType difficulty count 0 [])), w)
      else
        let subjectBangla = (if subject = u16 ''chemistry'' then chemistryBangla else ictBangla);
            examTypeBangla = (if examType = u16 ''academic'' then academicBangla else
              admissionBangla);
            classLevelBangla = (if classLevel = u16 ''9-10'' then class9to10Bangla else
              classHscBangla);
            difficultyLevels =
              (if difficulty = u16 ''mixed'' then mixedLevels
               else if difficulty = u16 ''easy'' then easyLevels
               else if difficulty = u16 ''medium'' then mediumLevels
               else hardLevels);
            questionCategoryDescription =
              (if questionCategory = u16 ''math-based'' then mathBasedDescription
               else if questionCategory = u16 ''theory-based'' then theoryBasedDescription
               else mixedDescription);
            prompt = questionsPrompt subject chapter questionType questionCategory count
                       subjectBangla examTypeBangla classLevelBangla difficultyLevels
                       questionCategoryDescription
        in case makeAPICall E prompt userId userRole GenerateQuestions subject w of
             (Inl error, w') \<Rightarrow> (Inl error, w')
           | (Inr content, w') \<Rightarrow>
               (case jsonMatch content of
                  None \<Rightarrow> (Inl (Error noJsonMessage), w')
                | Some matched \<Rightarrow>
                    (case parseJSON matched of
                       None \<Rightarrow> (Inl (Error parseFailedMessage), w')
                     | Some parsed \<Rightarrow> (Inr (Parsed parsed), w'))))"

subsection \<open>solveDoubt\<close>

fun exnMessage :: "exn \<Rightarrow> jsstring" where
  "exnMessage (Error m) = m"
| "exnMessage (TypeError m) = m"

definition demoAnswer :: "jsstring \<Rightarrow> jsstring \<Rightarrow> jsstring" where
  "demoAnswer question subject =
     (demoText1 @ (if subject = u16 ''chemistry'' then chemistryBangla else u16 ''ICT'') @
       demoText2 @ question @ demoText3)"

definition doubtPrompt :: "jsstring \<Rightarrow> jsstring \<Rightarrow> jsstring \<Rightarrow> jsstring" where
  "doubtPrompt question subject subjectBangla =
     (doubtText1 @ subjectBangla @ doubtText2 @ question @ doubtText3 @ (if subject =
       u16 ''chemistry'' then doubtText4 else doubtText5) @ doubtText6)"

definition errorAnswer :: "jsstring \<Rightarrow> jsstring \<Rightarrow> exn \<Rightarrow> jsstring" where
  "errorAnswer question subjectBangla error =
     (errorText1 @ subjectBangla @ demoText2 @ question @ errorText2 @ exnMessage error @
       errorText3)"

text \<open>
  \<open>solveDoubt\<close>: the demo text without credentials; otherwise the call inside \<open>try\<close>, whose
  \<open>catch\<close> turns whatever was thrown into a text.
\<close>

definition solveDoubt ::
  "oracles \<Rightarrow> jsstring \<Rightarrow> jsstring \<Rightarrow> jsstring \<Rightarrow> user_role \<Rightarrow> world \<Rightarrow> (exn + jsstring) \<times> world" where
  "solveDoubt E question subject userId userRole w =
     (if length (apiKeys w) = 0 then (Inr (demoAnswer question subject), w)
      else
        let subjectBangla = (if subject = u16 ''chemistry'' then chemistryBangla else ictBangla);
            prompt = doubtPrompt question subject subjectBangla
        in case makeAPICall E prompt userId userRole SolveDoubt subject w of
             (Inr result, w') \<Rightarrow> (Inr result, w')
           | (Inl error, w') \<Rightarrow> (Inr (errorAnswer question subjectBangla error), w'))"

subsection \<open>Notions that the statements use\<close>

text \<open>The world after k successive calls of \<open>rotateToNextKey\<close>.\<close>

fun rotations :: "oracles \<Rightarrow> nat \<Rightarrow> world \<Rightarrow> world" where
  "rotations E 0 w = w"
| "rotations E (Suc k) w = rotations E k (snd (rotateToNextKey E w))"

text \<open>
  The world after a failed attempt has been recorded by the \<open>catch\<close> block: the backend was
  invoked with the current credential, the clock was read, and \<open>logUsage\<close> was called.
\<close>

definition failed ::
  "oracles \<Rightarrow> jsstring \<Rightarrow> jsstring \<Rightarrow> user_role \<Rightarrow> request_type \<Rightarrow> jsstring \<Rightarrow> int \<Rightarrow>
   js_error \<Rightarrow> world \<Rightarrow> world" where
  "failed E prompt userId userRole requestType subject startTime e w =
     (let currentKey = apiKeys w ! currentKeyIndex w;
          w1 = snd (generateContent E currentKey prompt w)
      in logUsage E userId userRole requestType subject False (Some (keyName currentKey))
           (message e) (Some (fst (now E w1) - startTime)) (Some (length prompt)) None
           (snd (now E w1)))"

text \<open>The Usage Record of a failed attempt.\<close>

definition failedRow ::
  "jsstring \<Rightarrow> jsstring \<Rightarrow> user_role \<Rightarrow> request_type \<Rightarrow> jsstring \<Rightarrow> api_key \<Rightarrow> js_error \<Rightarrow> int \<Rightarrow> usage_row"
    where
  "failedRow prompt userId userRole requestType subject currentKey e processingTime =
     \<lparr>u_userId = userId, u_userRole = userRole, u_requestType = requestType,
      u_keyUsed = (if keyName currentKey = [] then u16 ''none'' else keyName currentKey),
      u_subject = subject, u_success = False, u_errorMessage = message e,
      u_processingTime = Some processingTime, u_promptLength = Some (length prompt),
      u_responseLength = None\<rparr>"

text \<open>The world after a successful attempt has been recorded.\<close>

definition succeeded ::
  "oracles \<Rightarrow> jsstring \<Rightarrow> jsstring \<Rightarrow> user_role \<Rightarrow> request_type \<Rightarrow> jsstring \<Rightarrow> int \<Rightarrow>
   jsstring \<Rightarrow> world \<Rightarrow> world" where
  "succeeded E prompt userId userRole requestType subject startTime result w =
     (let currentKey = apiKeys w ! currentKeyIndex w;
          w1 = snd (generateContent E currentKey prompt w)
      in logUsage E userId userRole requestType subject True (Some (keyName currentKey))
           JUndefined (Some (fst (now E w1) - startTime)) (Some (length prompt))
           (Some (length result)) (snd (now E w1)))"

text \<open>Two worlds with the same in-memory pool state and the same history of backend calls.\<close>

definition sameMemory :: "world \<Rightarrow> world \<Rightarrow> bool" where
  "sameMemory w1 w2 =
     (apiKeys w1 = apiKeys w2 \<and> currentKeyIndex w1 = currentKeyIndex w2 \<and> calls w1 = calls w2)"

subsection \<open>Concrete pools and backends\<close>

definition key1 :: api_key where
  "key1 = \<lparr>keyName = u16 ''GEMINI_API_KEY'', keyValue = u16 ''secret-one'', keyIndex = 0\<rparr>"

definition key2 :: api_key where
  "key2 = \<lparr>keyName = u16 ''GEMINI_API_KEY_2'', keyValue = u16 ''secret-two'', keyIndex = 1\<rparr>"

definition key3 :: api_key where
  "key3 = \<lparr>keyName = u16 ''GEMINI_API_KEY_3'', keyValue = u16 ''secret-three'', keyIndex = 2\<rparr>"

definition poolOf :: "api_key list \<Rightarrow> nat \<Rightarrow> world" where
  "poolOf ks c = \<lparr>apiKeys = ks, currentKeyIndex = c, env = [], praggoAIKeys = [],
     praggoAIUsage = [], dbOps = 0, clockReads = 0, calls = []\<rparr>"

definition quotaError :: js_error where
  "quotaError =
     \<lparr>message = JStr (u16 ''Resource exhausted''), status = JNum 429, code = JUndefined\<rparr>"

definition alwaysQuota :: oracles where
  "alwaysQuota =
     \<lparr>backend = (\<lambda>n k p. Rejected quotaError), dbFails = (\<lambda>n. False), clock = (\<lambda>n. int n)\<rparr>"

definition timeoutError :: js_error where
  "timeoutError =
     \<lparr>message = JStr (u16 ''Request timeout''), status = JNum 503, code = JStr (u16 ''ETIMEDOUT'')\<rparr>"

definition alwaysTimeout :: oracles where
  "alwaysTimeout =
     \<lparr>backend = (\<lambda>n k p. Rejected timeoutError), dbFails = (\<lambda>n. False), clock = (\<lambda>n. int n)\<rparr>"

definition answer :: response where
  "answer = \<lparr>textFn = Some (Returns (u16 ''answer'')), candidateText = None, nested = None\<rparr>"

definition alwaysAnswers :: oracles where
  "alwaysAnswers =
     \<lparr>backend = (\<lambda>n k p. Resolved (Some answer)), dbFails = (\<lambda>n. False), clock = (\<lambda>n. int n)\<rparr>"

definition secondSucceeds :: oracles where
  "secondSucceeds =
     \<lparr>backend = (\<lambda>n k p. if keyName k = keyName key1 then Rejected quotaError
                          else Resolved (Some answer)),
      dbFails = (\<lambda>n. False), clock = (\<lambda>n. int n)\<rparr>"

text \<open>One request, for the examples: a student's doubt in ICT.\<close>

definition demoCall :: "oracles \<Rightarrow> world \<Rightarrow> (exn + jsstring) \<times> world" where
  "demoCall E w =
     makeAPICall E (u16 ''hello'') (u16 ''u1'') Student SolveDoubt (u16 ''ict'') w"

text \<open>
  A service that was built with three credentials in the environment and has rotated twice,
  after which the second and third were taken out of the environment.
\<close>

definition shrunk :: world where
  "shrunk = \<lparr>apiKeys = [key1, key2, key3], currentKeyIndex = 2,
     env = [(u16 ''GEMINI_API_KEY'', u16 ''secret-one'')], praggoAIKeys = [],
     praggoAIUsage = [], dbOps = 0, clockReads = 0, calls = []\<rparr>"

section \<open>Properties\<close>

subsection \<open>Searching a message\<close>

lemma includesJS_iff: "includesJS h n \<longleftrightarrow> (\<exists>p s. h = p @ n @ s)"
proof (induction h)
  case Nil
  then show ?case by auto
next
  case (Cons c cs)
  show ?case
  proof
    assume "includesJS (c # cs) n"
    then consider "prefix n (c # cs)" | "includesJS cs n" by auto
    then show "\<exists>p s. c # cs = p @ n @ s"
    proof cases
      case 1
      then obtain s where "c # cs = n @ s" by (auto simp: prefix_def)
      then have "c # cs = [] @ n @ s" by simp
      then show ?thesis by blast
    next
      case 2
      with Cons.IH obtain p s where "cs = p @ n @ s" by blast
      then have "c # cs = (c # p) @ n @ s" by simp
      then show ?thesis by blast
    qed
  next
    assume "\<exists>p s. c # cs = p @ n @ s"
    then obtain p s where eq: "c # cs = p @ n @ s" by blast
    show "includesJS (c # cs) n"
    proof (cases p)
      case Nil
      with eq have "prefix n (c # cs)" by (simp add: prefix_def)
      then show ?thesis by simp
    next
      case (Cons a p')
      with eq have "cs = p' @ n @ s" by simp
      with Cons.IH have "includesJS cs n" by blast
      then show ?thesis by simp
    qed
  qed
qed

lemma window_iff: "(\<exists>p s. h = p @ n @ s) \<longleftrightarrow> (\<exists>i \<le> length h. take (length n) (drop i h) = n)"
proof
  assume "\<exists>p s. h = p @ n @ s"
  then obtain p s where "h = p @ n @ s" by blast
  then have "length p \<le> length h" "take (length n) (drop (length p) h) = n" by simp_all
  then show "\<exists>i \<le> length h. take (length n) (drop i h) = n" by blast
next
  assume "\<exists>i \<le> length h. take (length n) (drop i h) = n"
  then obtain i where i: "take (length n) (drop i h) = n" by blast
  have "h = take i h @ take (length n) (drop i h) @ drop (length n) (drop i h)"
    by (metis append_take_drop_id)
  with i have "h = take i h @ n @ drop (length n) (drop i h)" by simp
  then show "\<exists>p s. h = p @ n @ s" by blast
qed

lemma containsIgnoringCase_toLowerCase:
  assumes "map lowerUnit kw = kw"
  shows "containsIgnoringCase msg kw \<longleftrightarrow> includesJS (toLowerCase msg) kw"
proof -
  have "includesJS (toLowerCase msg) kw \<longleftrightarrow>
        (\<exists>i \<le> length msg. take (length kw) (drop i (map lowerUnit msg)) = kw)"
    by (simp add: includesJS_iff window_iff toLowerCase_def)
  also have "\<dots> \<longleftrightarrow> (\<exists>i \<le> length msg. map lowerUnit (take (length kw) (drop i msg)) = map lowerUnit
    kw)"
    by (simp add: take_map drop_map assms)
  also have "\<dots> \<longleftrightarrow> containsIgnoringCase msg kw"
    unfolding containsIgnoringCase_def Bex_def by (metis atLeastLessThan_iff less_Suc_eq_le set_upt
      zero_le)
  finally show ?thesis by simp
qed

lemma quotaWords_lower: "kw \<in> set quotaWords \<Longrightarrow> map lowerUnit kw = kw"
  by (auto simp: quotaWords_def u16_def lowerUnit_def)

lemma includesJS_Nil [simp]: "includesJS [] (u16 (c # cs)) = False"
  by (simp add: u16_def)


subsection \<open>What each operation leaves unchanged\<close>

lemma now_frame [simp]:
  "apiKeys (snd (now E w)) = apiKeys w"
  "currentKeyIndex (snd (now E w)) = currentKeyIndex w"
  "calls (snd (now E w)) = calls w"
  "praggoAIUsage (snd (now E w)) = praggoAIUsage w"
  "dbOps (snd (now E w)) = dbOps w"
  by (simp_all add: now_def)

lemma logUsage_frame [simp]:
  "apiKeys (logUsage E u r t s ok k m pt pl rl w) = apiKeys w"
  "currentKeyIndex (logUsage E u r t s ok k m pt pl rl w) = currentKeyIndex w"
  "calls (logUsage E u r t s ok k m pt pl rl w) = calls w"
  by (simp_all add: logUsage_def dbOp_def now_def bumpUsage_def Let_def split: option.splits
    prod.splits)

lemma rotateToNextKey_frame [simp]:
  "apiKeys (snd (rotateToNextKey E w)) = apiKeys w"
  "calls (snd (rotateToNextKey E w)) = calls w"
  "praggoAIUsage (snd (rotateToNextKey E w)) = praggoAIUsage w"
  by (simp_all add: rotateToNextKey_def dbOp_def now_def markQuotaExceeded_def Let_def
        split: option.splits prod.splits)

lemma rotateToNextKey_cursor:
  "currentKeyIndex (snd (rotateToNextKey E w)) =
     (if length (apiKeys w) \<le> 1 then currentKeyIndex w
      else (currentKeyIndex w + 1) mod length (apiKeys w))"
  by (simp add: rotateToNextKey_def dbOp_def now_def markQuotaExceeded_def Let_def
        split: option.splits prod.splits)

lemma rotateToNextKey_cursor_mod:
  assumes "currentKeyIndex w < length (apiKeys w)"
  shows "currentKeyIndex (snd (rotateToNextKey E w)) = (currentKeyIndex w + 1) mod length (apiKeys
    w)"
proof (cases "length (apiKeys w) \<le> 1")
  case True
  with assms have "length (apiKeys w) = 1" "currentKeyIndex w = 0" by auto
  then show ?thesis by (simp add: rotateToNextKey_cursor)
next
  case False
  then show ?thesis by (simp add: rotateToNextKey_cursor)
qed

lemma rotations_apiKeys [simp]: "apiKeys (rotations E k w) = apiKeys w"
  by (induction k arbitrary: w) simp_all

lemma rotations_cursor:
  assumes "currentKeyIndex w < length (apiKeys w)"
  shows "currentKeyIndex (rotations E k w) = (currentKeyIndex w + k) mod length (apiKeys w)"
  using assms
proof (induction k arbitrary: w)
  case 0
  then show ?case by simp
next
  case (Suc k)
  let ?w = "snd (rotateToNextKey E w)"
  have c: "currentKeyIndex ?w = (currentKeyIndex w + 1) mod length (apiKeys w)"
    using Suc.prems by (rule rotateToNextKey_cursor_mod)
  moreover have "0 < length (apiKeys w)"
    using Suc.prems by linarith
  ultimately have "currentKeyIndex ?w < length (apiKeys ?w)"
    by simp
  then have "currentKeyIndex (rotations E k ?w) = (currentKeyIndex ?w + k) mod length (apiKeys ?w)"
    by (rule Suc.IH)
  then show ?case
    by (simp add: c mod_add_left_eq)
qed


subsection \<open>One pass through the loop\<close>

lemma getCurrentKey_valid:
  "currentKeyIndex w < length (apiKeys w) \<Longrightarrow> getCurrentKey w = Some (apiKeys w ! currentKeyIndex w)"
  by (auto simp: getCurrentKey_def)

lemma logUsage_usage:
  "praggoAIUsage (logUsage E u r t s ok k m pt pl rl w) =
     praggoAIUsage w @
       (if dbFails E (dbOps w) then []
        else [\<lparr>u_userId = u, u_userRole = r, u_requestType = t,
               u_keyUsed = (case k of None \<Rightarrow> u16 ''none'' | Some n \<Rightarrow> if n = [] then u16 ''none''
                 else n),
               u_subject = s, u_success = ok, u_errorMessage = m, u_processingTime = pt,
               u_promptLength = pl, u_responseLength = rl\<rparr>])"
  by (simp add: logUsage_def dbOp_def now_def bumpUsage_def Let_def split: option.splits
    prod.splits)

lemma failed_frame [simp]:
  "apiKeys (failed E prompt u r t s st e w) = apiKeys w"
  "currentKeyIndex (failed E prompt u r t s st e w) = currentKeyIndex w"
  "calls (failed E prompt u r t s st e w) = calls w @ [(currentKeyIndex w, apiKeys w !
    currentKeyIndex w)]"
  by (simp_all add: failed_def generateContent_def Let_def)

lemma attemptOnce_failure:
  assumes "currentKeyIndex w < length (apiKeys w)"
    and "readResponse (backend E (length (calls w)) (apiKeys w ! currentKeyIndex w) prompt) = Inl e"
  shows "attemptOnce E prompt u r t s st le w =
           (case isQuotaError (Some e) of
              Inl x \<Rightarrow> (Threw x, Some e, failed E prompt u r t s st e w)
            | Inr q \<Rightarrow> if q then (Continue, Some e, snd (rotateToNextKey E (failed E prompt u r t s
              st e w)))
                       else (Break, Some e, failed E prompt u r t s st e w))"
  using assms
  by (simp add: attemptOnce_def getCurrentKey_valid createGeminiClient_def tryAttempt_def
        generateContent_def failed_def Let_def split: prod.splits sum.splits bool.splits)

lemma attemptLoop_exit:
  assumes "\<not> (a < maxRetries \<and> a < length (apiKeys w))"
  shows "attemptLoop E prompt u r t s st a le w = (Fallen a le, w)"
  by (subst attemptLoop.simps) (simp only: assms if_False)

lemma attemptLoop_step:
  assumes "a < maxRetries" and "a < length (apiKeys w)"
  shows "attemptLoop E prompt u r t s st a le w =
     (case attemptOnce E prompt u r t s st le w of
        (Returned result, lastError', w') \<Rightarrow> (Return result, w')
      | (Threw x, lastError', w') \<Rightarrow> (Throw x, w')
      | (Break, lastError', w') \<Rightarrow> (Fallen a lastError', w')
      | (Continue, lastError', w') \<Rightarrow> attemptLoop E prompt u r t s st (Suc a) lastError' w')"
  by (subst attemptLoop.simps) (simp only: assms simp_thms if_True)

lemma upt_shift: "map f [0 ..< Suc d] = f 0 # map (\<lambda>i. f (Suc i)) [0 ..< d]"
  by (rule map_upt_Suc)

lemma all_quota_loop:
  assumes quota: "\<forall>n key. \<exists>e. readResponse (backend E n key prompt) = Inl e \<and> isQuotaError (Some e)
    = Inr True"
  shows "currentKeyIndex w < length (apiKeys w) \<Longrightarrow> a + d = min maxRetries (length (apiKeys w)) \<Longrightarrow>
         \<exists>le' w'. attemptLoop E prompt u r t s st a le w = (Fallen (a + d) le', w') \<and>
            apiKeys w' = apiKeys w \<and>
            currentKeyIndex w' = (currentKeyIndex w + d) mod length (apiKeys w) \<and>
            calls w' = calls w @ map (\<lambda>i. ((currentKeyIndex w + i) mod length (apiKeys w),
                                           apiKeys w ! ((currentKeyIndex w + i) mod length (apiKeys
                                             w)))) [0 ..< d] \<and>
            (if d = 0 then le' = le else (\<exists>e. le' = Some e \<and> isQuotaError (Some e) = Inr True))"
proof (induction d arbitrary: a le w)
  case 0
  then have "\<not> (a < maxRetries \<and> a < length (apiKeys w))" by auto
  then have "attemptLoop E prompt u r t s st a le w = (Fallen a le, w)"
    by (rule attemptLoop_exit)
  then show ?case using 0 by simp
next
  case (Suc d)
  let ?N = "length (apiKeys w)" and ?c = "currentKeyIndex w"
  let ?k = "apiKeys w ! ?c"
  from Suc.prems have cond: "a < maxRetries \<and> a < ?N" by auto
  from quota obtain e where e: "readResponse (backend E (length (calls w)) ?k prompt) = Inl e"
    and q: "isQuotaError (Some e) = Inr True" by blast
  let ?w1 = "snd (rotateToNextKey E (failed E prompt u r t s st e w))"
  have once: "attemptOnce E prompt u r t s st le w = (Continue, Some e, ?w1)"
    using attemptOnce_failure [OF Suc.prems(1) e] q by simp
  have step: "attemptLoop E prompt u r t s st a le w = attemptLoop E prompt u r t s st (Suc a) (Some
    e) ?w1"
    using cond once by (simp add: attemptLoop_step)
  have keys1: "apiKeys ?w1 = apiKeys w" by simp
  have cur1: "currentKeyIndex ?w1 = (?c + 1) mod ?N"
    using Suc.prems(1) by (simp add: rotateToNextKey_cursor_mod)
  have pos: "0 < ?N" using Suc.prems(1) by linarith
  have valid1: "currentKeyIndex ?w1 < length (apiKeys ?w1)"
    using pos by (simp add: cur1)
  have sum1: "Suc a + d = min maxRetries (length (apiKeys ?w1))"
    using Suc.prems(2) by simp
  from Suc.IH [OF valid1 sum1, of "Some e"] obtain le' w' where
    loop: "attemptLoop E prompt u r t s st (Suc a) (Some e) ?w1 = (Fallen (Suc a + d) le', w')"
    and keys: "apiKeys w' = apiKeys ?w1"
    and cur: "currentKeyIndex w' = (currentKeyIndex ?w1 + d) mod length (apiKeys ?w1)"
    and cs: "calls w' = calls ?w1 @ map (\<lambda>i. ((currentKeyIndex ?w1 + i) mod length (apiKeys ?w1),
                 apiKeys ?w1 ! ((currentKeyIndex ?w1 + i) mod length (apiKeys ?w1)))) [0 ..< d]"
    and last: "if d = 0 then le' = Some e else (\<exists>e. le' = Some e \<and> isQuotaError (Some e) = Inr
      True)"
    by blast
  have idx: "\<And>i. (Suc ?c mod ?N + i) mod ?N = Suc (?c + i) mod ?N"
    by (metis add_Suc mod_add_left_eq)
  have "attemptLoop E prompt u r t s st a le w = (Fallen (a + Suc d) le', w')"
    using step loop by simp
  moreover have "apiKeys w' = apiKeys w" using keys by simp
  moreover have "currentKeyIndex w' = (?c + Suc d) mod ?N"
    using cur by (simp add: cur1 idx)
  moreover have "calls w' = calls w @ map (\<lambda>i. ((?c + i) mod ?N, apiKeys w ! ((?c + i) mod ?N))) [0
    ..< Suc d]"
    using cs Suc.prems(1) by (simp add: cur1 idx upt_shift del: upt_Suc)
  moreover have "\<exists>e. le' = Some e \<and> isQuotaError (Some e) = Inr True"
    using last q by (cases "d = 0") auto
  ultimately show ?case by simp
qed

lemma classified_message:
  assumes "isQuotaError (Some e) = Inr q"
  shows "messageIncludes (Some e) (u16 ''exhausted'') =
           Inr (includesJS (messageText (Some e)) (u16 ''exhausted''))"
    and "stringOrAbsent (message e)"
  using assms
  by (auto simp: isQuotaError_def messageText_def stringOrAbsent_def u16_def split: jsval.splits
    sum.splits)

lemma finalError_quota:
  assumes "isQuotaError (Some e) = Inr True"
  shows "finalError a (Some e) w =
           (if includesJS (messageText (Some e)) (u16 ''exhausted'') \<or> length (apiKeys w) \<le> a
            then Error dailyLimitMessage else Error allKeysFullMessage)"
  unfolding finalError_def classified_message(1) [OF assms] assms by simp

lemma finalError_non_quota:
  assumes "isQuotaError (Some e) = Inr False"
  shows "finalError a (Some e) w =
           Error (if includesJS (messageText (Some e)) (u16 ''exhausted'') \<or> length (apiKeys w) \<le> a
                  then dailyLimitMessage
                  else if messageText (Some e) = [] then serviceProblemMessage
                  else messageText (Some e))"
  unfolding finalError_def classified_message(1) [OF assms] assms
  using classified_message(2) [OF assms]
  by (auto simp: messageText_def orJS_def stringOrAbsent_def split: jsval.splits)

lemma makeAPICall_unfold:
  "makeAPICall E prompt u r t s w =
     (case attemptLoop E prompt u r t s (fst (now E w)) 0 None (snd (now E w)) of
        (Return result, w') \<Rightarrow> (Inr result, w')
      | (Throw x, w') \<Rightarrow> (Inl x, w')
      | (Fallen attempt lastError, w') \<Rightarrow> (Inl (finalError attempt lastError w'), w'))"
  by (simp add: makeAPICall_def case_prod_beta)

lemma quotaError_quota: "isQuotaError (Some quotaError) = Inr True"
  by (simp add: isQuotaError_def quotaError_def errorStatus_def orJS_def)

subsection \<open>Failure, success and independence of the store\<close>

lemma failed_store:
  "dbOps (failed E prompt u r t s st e w) = Suc (dbOps w)"
  "praggoAIKeys (failed E prompt u r t s st e w) = praggoAIKeys w"
  "praggoAIUsage (failed E prompt u r t s st e w) =
     praggoAIUsage w @
       (if dbFails E (dbOps w) then []
        else [failedRow prompt u r t s (apiKeys w ! currentKeyIndex w) e (clock E (clockReads w) -
          st)])"
  by (simp_all add: failed_def generateContent_def logUsage_def dbOp_def now_def failedRow_def
    Let_def)

lemma attemptOnce_non_quota:
  assumes "currentKeyIndex w < length (apiKeys w)"
    and "readResponse (backend E (length (calls w)) (apiKeys w ! currentKeyIndex w) prompt) = Inl e"
    and "isQuotaError (Some e) = Inr False"
  shows "attemptOnce E prompt u r t s st le w = (Break, Some e, failed E prompt u r t s st e w)"
  using attemptOnce_failure [OF assms(1,2)] assms(3) by simp

lemma timeoutError_fatal: "isQuotaError (Some timeoutError) = Inr False"
  by (simp add: isQuotaError_def timeoutError_def errorStatus_def orJS_def u16_def toLowerCase_def
    lowerUnit_def)

lemma getCurrentKey_Some:
  "getCurrentKey w = Some k \<Longrightarrow> currentKeyIndex w < length (apiKeys w) \<and> k = apiKeys w !
    currentKeyIndex w"
  by (auto simp: getCurrentKey_def split: if_splits)

lemma succeeded_frame [simp]:
  "apiKeys (succeeded E prompt u r t s st res w) = apiKeys w"
  "currentKeyIndex (succeeded E prompt u r t s st res w) = currentKeyIndex w"
  "calls (succeeded E prompt u r t s st res w) = calls w @ [(currentKeyIndex w, apiKeys w !
    currentKeyIndex w)]"
  by (simp_all add: succeeded_def generateContent_def Let_def)

lemma attemptOnce_success:
  assumes "currentKeyIndex w < length (apiKeys w)"
    and "readResponse (backend E (length (calls w)) (apiKeys w ! currentKeyIndex w) prompt) = Inr
      result"
  shows "attemptOnce E prompt u r t s st le w = (Returned result, le, succeeded E prompt u r t s st
    result w)"
  using assms
  by (simp add: attemptOnce_def getCurrentKey_valid createGeminiClient_def tryAttempt_def
        generateContent_def succeeded_def Let_def split: prod.splits)

lemma attemptOnce_no_key:
  assumes "getCurrentKey w = None"
  shows "attemptOnce E prompt u r t s st le w =
           (Threw (Error noKeysMessage), le,
            logUsage E u r t s False None (JStr noKeysMessage) None None None w)"
  using assms by (simp add: attemptOnce_def)

lemma attemptOnce_Returned:
  assumes "attemptOnce E prompt u r t s st le w = (Returned result, le', w')"
  shows "currentKeyIndex w < length (apiKeys w) \<and>
         readResponse (backend E (length (calls w)) (apiKeys w ! currentKeyIndex w) prompt) = Inr
           result \<and>
         w' = succeeded E prompt u r t s st result w"
proof (cases "getCurrentKey w")
  case None
  with assms show ?thesis by (simp add: attemptOnce_no_key)
next
  case (Some k)
  then have valid: "currentKeyIndex w < length (apiKeys w)"
    by (simp add: getCurrentKey_Some)
  show ?thesis
  proof (cases "readResponse (backend E (length (calls w)) (apiKeys w ! currentKeyIndex w) prompt)")
    case (Inl e)
    with assms attemptOnce_failure [OF valid Inl, of u r t s st le] show ?thesis
      by (auto split: sum.splits if_splits)
  next
    case (Inr res)
    with assms attemptOnce_success [OF valid Inr, of u r t s st le] valid show ?thesis
      by auto
  qed
qed

lemma attemptLoop_Return:
  "attemptLoop E prompt u r t s st a le w = (Return result, w') \<Longrightarrow>
     calls w' \<noteq> [] \<and> fst (last (calls w')) = currentKeyIndex w' \<and>
     getCurrentKey w' = Some (snd (last (calls w'))) \<and>
     readResponse (backend E (length (calls w') - 1) (snd (last (calls w'))) prompt) = Inr result"
proof (induction "maxRetries - a" arbitrary: a le w)
  case 0
  then have "\<not> (a < maxRetries \<and> a < length (apiKeys w))" by simp
  then have "attemptLoop E prompt u r t s st a le w = (Fallen a le, w)"
    by (rule attemptLoop_exit)
  with "0.prems" show ?case by simp
next
  case (Suc n)
  show ?case
  proof (cases "a < maxRetries \<and> a < length (apiKeys w)")
    case False
    then have "attemptLoop E prompt u r t s st a le w = (Fallen a le, w)"
      by (rule attemptLoop_exit)
    with Suc.prems show ?thesis by simp
  next
    case True
    obtain it le1 w1 where once: "attemptOnce E prompt u r t s st le w = (it, le1, w1)"
      by (cases "attemptOnce E prompt u r t s st le w") auto
    show ?thesis
    proof (cases it)
      case (Returned res)
      with True once Suc.prems have "res = result" "w1 = w'"
        by (simp_all add: attemptLoop_step)
      with once Returned attemptOnce_Returned [of E prompt u r t s st le w result le1 w']
      have valid: "currentKeyIndex w < length (apiKeys w)"
        and resp: "readResponse (backend E (length (calls w)) (apiKeys w ! currentKeyIndex w)
          prompt) = Inr result"
        and w': "w' = succeeded E prompt u r t s st result w"
        by simp_all
      show ?thesis
        using valid resp by (auto simp: w' getCurrentKey_def)
    next
      case (Threw x)
      with True once Suc.prems show ?thesis by (simp add: attemptLoop_step)
    next
      case Break
      with True once Suc.prems show ?thesis by (simp add: attemptLoop_step)
    next
      case Continue
      with True once Suc.prems
      have "attemptLoop E prompt u r t s st (Suc a) le1 w1 = (Return result, w')"
        by (simp add: attemptLoop_step)
      moreover have "n = maxRetries - Suc a" using Suc.hyps(2) by simp
      ultimately show ?thesis using Suc.hyps(1) by blast
    qed
  qed
qed

lemma sameMemory_getCurrentKey: "sameMemory w1 w2 \<Longrightarrow> getCurrentKey w1 = getCurrentKey w2"
  by (simp add: sameMemory_def getCurrentKey_def)

lemma sameMemory_rotate:
  "sameMemory w1 w2 \<Longrightarrow> sameMemory (snd (rotateToNextKey E1 w1)) (snd (rotateToNextKey E2 w2))"
  by (simp add: sameMemory_def rotateToNextKey_cursor)

lemma attemptOnce_independent:
  assumes "sameMemory w1 w2" and "backend E1 = backend E2"
  shows "fst (attemptOnce E1 prompt u r t s st1 le w1) = fst (attemptOnce E2 prompt u r t s st2 le
    w2) \<and>
         fst (snd (attemptOnce E1 prompt u r t s st1 le w1)) = fst (snd (attemptOnce E2 prompt u r t
           s st2 le w2)) \<and>
         sameMemory (snd (snd (attemptOnce E1 prompt u r t s st1 le w1)))
                    (snd (snd (attemptOnce E2 prompt u r t s st2 le w2)))"
proof (cases "getCurrentKey w1")
  case None
  then have "getCurrentKey w2 = None" using assms(1) by (simp add: sameMemory_getCurrentKey)
  with None assms(1) show ?thesis by (simp add: attemptOnce_no_key sameMemory_def)
next
  case (Some k)
  then have v1: "currentKeyIndex w1 < length (apiKeys w1)" by (simp add: getCurrentKey_Some)
  then have v2: "currentKeyIndex w2 < length (apiKeys w2)" using assms(1) by (simp add:
    sameMemory_def)
  let ?resp1 = "readResponse (backend E1 (length (calls w1)) (apiKeys w1 ! currentKeyIndex w1)
    prompt)"
  let ?resp2 = "readResponse (backend E2 (length (calls w2)) (apiKeys w2 ! currentKeyIndex w2)
    prompt)"
  have same: "?resp1 = ?resp2" using assms by (simp add: sameMemory_def)
  show ?thesis
  proof (cases ?resp1)
    case (Inl e)
    then have r2: "?resp2 = Inl e" using same by simp
    have f: "sameMemory (failed E1 prompt u r t s st1 e w1) (failed E2 prompt u r t s st2 e w2)"
      using assms(1) by (simp add: sameMemory_def)
    show ?thesis
      unfolding attemptOnce_failure [OF v1 Inl] attemptOnce_failure [OF v2 r2]
      using f sameMemory_rotate [OF f] by (auto split: sum.splits)
  next
    case (Inr res)
    then have r2: "?resp2 = Inr res" using same by simp
    show ?thesis
      unfolding attemptOnce_success [OF v1 Inr] attemptOnce_success [OF v2 r2]
      using assms(1) by (simp add: sameMemory_def)
  qed
qed

lemma attemptLoop_independent:
  assumes "backend E1 = backend E2"
  shows "sameMemory w1 w2 \<Longrightarrow>
         fst (attemptLoop E1 prompt u r t s st1 a le w1) = fst (attemptLoop E2 prompt u r t s st2 a
           le w2) \<and>
         sameMemory (snd (attemptLoop E1 prompt u r t s st1 a le w1))
                    (snd (attemptLoop E2 prompt u r t s st2 a le w2))"
proof (induction "maxRetries - a" arbitrary: a le w1 w2)
  case 0
  then have "\<not> (a < maxRetries \<and> a < length (apiKeys w1))" "\<not> (a < maxRetries \<and> a < length (apiKeys
    w2))"
    by simp_all
  then show ?case using "0.prems" by (simp add: attemptLoop_exit)
next
  case (Suc n)
  have len: "length (apiKeys w1) = length (apiKeys w2)" using Suc.prems by (simp add:
    sameMemory_def)
  show ?case
  proof (cases "a < maxRetries \<and> a < length (apiKeys w1)")
    case False
    then have "\<not> (a < maxRetries \<and> a < length (apiKeys w2))" using len by simp
    with False show ?thesis using Suc.prems by (simp add: attemptLoop_exit)
  next
    case True
    then have c1: "a < maxRetries" "a < length (apiKeys w1)" and c2: "a < length (apiKeys w2)"
      using len by simp_all
    obtain it l1 v1 where o1: "attemptOnce E1 prompt u r t s st1 le w1 = (it, l1, v1)"
      by (cases "attemptOnce E1 prompt u r t s st1 le w1") auto
    obtain it2 l2 v2 where o2: "attemptOnce E2 prompt u r t s st2 le w2 = (it2, l2, v2)"
      by (cases "attemptOnce E2 prompt u r t s st2 le w2") auto
    from attemptOnce_independent [OF Suc.prems assms, of prompt u r t s st1 le st2] o1 o2
    have eq: "it2 = it" "l2 = l1" and mem: "sameMemory v1 v2" by simp_all
    show ?thesis
    proof (cases it)
      case Continue
      have "n = maxRetries - Suc a" using Suc.hyps(2) by simp
      from Suc.hyps(1) [OF this mem, of l1]
      show ?thesis
        using c1 c2 o1 o2 eq Continue by (simp add: attemptLoop_step)
    qed (use c1 c2 o1 o2 eq mem in \<open>simp_all add: attemptLoop_step\<close>)
  qed
qed

lemma finalError_memory:
  "sameMemory w1 w2 \<Longrightarrow> finalError a le w1 = finalError a le w2"
  by (auto simp: finalError_def sameMemory_def split: sum.splits)

lemma makeAPICall_independent:
  assumes "backend E1 = backend E2" and "sameMemory w1 w2"
  shows "fst (makeAPICall E1 prompt u r t s w1) = fst (makeAPICall E2 prompt u r t s w2) \<and>
         sameMemory (snd (makeAPICall E1 prompt u r t s w1)) (snd (makeAPICall E2 prompt u r t s
           w2))"
proof -
  let ?l1 = "attemptLoop E1 prompt u r t s (fst (now E1 w1)) 0 None (snd (now E1 w1))"
  let ?l2 = "attemptLoop E2 prompt u r t s (fst (now E2 w2)) 0 None (snd (now E2 w2))"
  have "sameMemory (snd (now E1 w1)) (snd (now E2 w2))"
    using assms(2) by (simp add: sameMemory_def)
  from attemptLoop_independent [OF assms(1) this]
  have eq: "fst ?l1 = fst ?l2" and mem: "sameMemory (snd ?l1) (snd ?l2)" by simp_all
  obtain e1 v1 where l1: "?l1 = (e1, v1)" by (cases ?l1) auto
  obtain e2 v2 where l2: "?l2 = (e2, v2)" by (cases ?l2) auto
  from eq mem l1 l2 have "e2 = e1" "sameMemory v1 v2" by simp_all
  then show ?thesis
    using l1 l2 finalError_memory [of v1 v2]
    by (cases e1) (simp_all add: makeAPICall_unfold)
qed

lemmas dispatch_defs =
  makeAPICall_def attemptLoop.simps attemptOnce_def tryAttempt_def generateContent_def
  getCurrentKey_def createGeminiClient_def readResponse_def extractText_def responseText_def
  now_def logUsage_def dbOp_def bumpUsage_def rotateToNextKey_def markQuotaExceeded_def
  finalError_def maxRetries_def Let_def

subsection \<open>Rebuilding the pool, placeholders and answers\<close>

lemma getCurrentKey_now [simp]: "getCurrentKey (snd (now E w)) = getCurrentKey w"
  by (simp add: getCurrentKey_def)

lemma initializeDatabaseKeysFrom_cursor [simp]:
  "currentKeyIndex (initializeDatabaseKeysFrom E keys w) = currentKeyIndex w"
  by (induction keys arbitrary: w) (simp_all add: dbOp_def Let_def)

lemma initializeDatabaseKeysFrom_pool [simp]:
  "apiKeys (initializeDatabaseKeysFrom E keys w) = apiKeys w"
  by (induction keys arbitrary: w) (simp_all add: dbOp_def Let_def)

lemma initializeDatabaseKeysFrom_calls [simp]:
  "calls (initializeDatabaseKeysFrom E keys w) = calls w"
  by (induction keys arbitrary: w) (simp_all add: dbOp_def Let_def)

lemma refreshKeys_calls: "calls (refreshKeys E w) = calls w"
  by (simp add: refreshKeys_def initializeAPIKeys_def initializeDatabaseKeys_def restoreKeys_def
        dbOp_def Let_def)

lemma refreshKeys_cursor: "currentKeyIndex (refreshKeys E w) = currentKeyIndex w"
  by (simp add: refreshKeys_def initializeAPIKeys_def initializeDatabaseKeys_def restoreKeys_def
        dbOp_def Let_def)

lemma buildPool_one: "buildPool [(u16 ''GEMINI_API_KEY'', u16 ''secret-one'')] = [key1]"
  by (simp add: buildPool_def keyNames_def envValue_def trim_def isSpaceUnit_def key1_def u16_def)

lemma sampleLoop_map:
  "sampleLoop subject chapter questionType difficulty count i acc =
     acc @ map (\<lambda>k. sampleQuestion subject chapter questionType difficulty (i + int k))
               [0 ..< nat (count - i)]"
proof (induction "nat (count - i)" arbitrary: i acc)
  case 0
  then have "\<not> i < count" by simp
  then show ?case using 0 by (subst sampleLoop.simps) simp
next
  case (Suc n)
  then have lt: "i < count" and n: "n = nat (count - (i + 1))" by simp_all
  have len: "nat (count - i) = Suc (nat (count - (i + 1)))" using lt by simp
  have "sampleLoop subject chapter questionType difficulty count i acc =
          sampleLoop subject chapter questionType difficulty count (i + 1)
            (acc @ [sampleQuestion subject chapter questionType difficulty i])"
    using lt by (subst sampleLoop.simps) simp
  also have "\<dots> = (acc @ [sampleQuestion subject chapter questionType difficulty i]) @
          map (\<lambda>k. sampleQuestion subject chapter questionType difficulty (i + 1 + int k))
              [0 ..< nat (count - (i + 1))]"
    using Suc.hyps(1) [OF n] .
  also have "\<dots> = acc @ map (\<lambda>k. sampleQuestion subject chapter questionType difficulty (i + int k))
              [0 ..< nat (count - i)]"
    unfolding len by (simp add: map_upt_Suc del: upt_Suc) (simp add: add.commute add.left_commute)
  finally show ?case .
qed

lemma includesJS_middle: "includesJS (a @ n @ b) n"
  unfolding includesJS_iff by blast

lemma sampleQuestion_tags:
  "includesJS (q_questionText (sampleQuestion subject chapter questionType difficulty i))
     (if subject = u16 ''chemistry'' then chemistryBangla else u16 ''ICT'')"
  "includesJS (q_questionText (sampleQuestion subject chapter questionType difficulty i))
    difficulty"
proof -
  let ?label = "if subject = u16 ''chemistry'' then chemistryBangla else u16 ''ICT''"
  let ?tail = "sampleText2 @ toStringJS (JNum (i + 1)) @ u16 '' - '' @ chapter @ u16 '' ('' @
    difficulty @ sampleText3"
  have "q_questionText (sampleQuestion subject chapter questionType difficulty i) = sampleText1 @
    ?label @ ?tail"
    by (simp add: sampleQuestion_def)
  then show "includesJS (q_questionText (sampleQuestion subject chapter questionType difficulty i))
    ?label"
    by (simp only: includesJS_middle)
  have "q_questionText (sampleQuestion subject chapter questionType difficulty i) =
          (sampleText1 @ ?label @ sampleText2 @ toStringJS (JNum (i + 1)) @ u16 '' - '' @ chapter @
            u16 '' ('')
          @ difficulty @ sampleText3"
    by (simp add: sampleQuestion_def)
  then show "includesJS (q_questionText (sampleQuestion subject chapter questionType difficulty i))
    difficulty"
    by (simp only: includesJS_middle)
qed

lemma errorAnswer_message: "includesJS (errorAnswer question subjectBangla error) (exnMessage
  error)"
proof -
  have "errorAnswer question subjectBangla error =
          (errorText1 @ subjectBangla @ demoText2 @ question @ errorText2) @ exnMessage error @
            errorText3"
    by (simp add: errorAnswer_def)
  then show ?thesis by (simp only: includesJS_middle)
qed

subsection \<open>Rotation is addition modulo the pool size\<close>

lemma rotation_inj: "inj_on (\<lambda>k. (c + k) mod N) {0 ..< N}" for c N :: nat
proof (rule inj_onI)
  fix x y assume x: "x \<in> {0 ..< N}" and y: "y \<in> {0 ..< N}"
    and eq: "(c + x) mod N = (c + y) mod N"
  show "x = y"
  proof (cases "x \<le> y")
    case True
    then have "c + x \<le> c + y" by simp
    then have "N dvd (c + y) - (c + x)"
      using eq mod_eq_dvd_iff_nat [of "c + x" "c + y" N] by metis
    then have "N dvd y - x" by simp
    moreover have "y - x < N" using y by auto
    ultimately have "y - x = 0" by (meson dvd_imp_le not_less zero_less_iff_neq_zero)
    with True show ?thesis by simp
  next
    case False
    then have "c + y \<le> c + x" by simp
    then have "N dvd (c + x) - (c + y)"
      using eq mod_eq_dvd_iff_nat [of "c + y" "c + x" N] by metis
    then have "N dvd x - y" by simp
    moreover have "x - y < N" using x by auto
    ultimately have "x - y = 0" by (meson dvd_imp_le not_less zero_less_iff_neq_zero)
    with False show ?thesis by simp
  qed
qed

lemma rotation_onto:
  fixes c N :: nat
  assumes "0 < N"
  shows "(\<lambda>k. (c + k) mod N) ` {0 ..< N} = {0 ..< N}"
proof -
  have "(\<lambda>k. (c + k) mod N) ` {0 ..< N} \<subseteq> {0 ..< N}"
    using assms by auto
  moreover have "card ((\<lambda>k. (c + k) mod N) ` {0 ..< N}) = card {0 ..< N}"
    using rotation_inj by (rule card_image)
  ultimately show ?thesis
    by (simp add: card_subset_eq)
qed

subsection \<open>A backend that always answers with a quota error\<close>

text \<open>
  While the cursor is inside the pool: the backend is invoked min(maxRetries, N) times, at the
  cursor positions start, start + 1, ... modulo N, the cursor ends at
  (start + min(maxRetries, N)) mod N, and a quota message is thrown, the daily-limit message
  whenever N \<le> maxRetries.
\<close>

lemma makeAPICall_all_quota:
  assumes "1 \<le> length (apiKeys w)"
    and "currentKeyIndex w < length (apiKeys w)"
    and "\<forall>n key. \<exists>e. readResponse (backend E n key prompt) = Inl e \<and>
                        isQuotaError (Some e) = Inr True"
  shows "\<exists>thrown w'.
           makeAPICall E prompt userId userRole requestType subject w = (Inl (Error thrown), w') \<and>
           (thrown = dailyLimitMessage \<or> thrown = allKeysFullMessage) \<and>
           (length (apiKeys w) \<le> maxRetries \<longrightarrow> thrown = dailyLimitMessage) \<and>
           calls w' =
             calls w @ map (\<lambda>i. ((currentKeyIndex w + i) mod length (apiKeys w),
                                 apiKeys w ! ((currentKeyIndex w + i) mod length (apiKeys w))))
                           [0 ..< min maxRetries (length (apiKeys w))] \<and>
           currentKeyIndex w' =
             (currentKeyIndex w + min maxRetries (length (apiKeys w))) mod length (apiKeys w)"
proof -
  let ?w0 = "snd (now E w)" and ?st = "fst (now E w)"
  let ?m = "min maxRetries (length (apiKeys w))"
  have valid: "currentKeyIndex ?w0 < length (apiKeys ?w0)" using assms(2) by simp
  have budget: "0 + ?m = min maxRetries (length (apiKeys ?w0))" by simp
  from all_quota_loop [OF assms(3) valid budget, of userId userRole requestType subject ?st None]
  obtain le' w' where
    loop: "attemptLoop E prompt userId userRole requestType subject ?st 0 None ?w0 =
             (Fallen ?m le', w')"
    and keys: "apiKeys w' = apiKeys w"
    and cur: "currentKeyIndex w' = (currentKeyIndex w + ?m) mod length (apiKeys w)"
    and cs: "calls w' = calls w @ map (\<lambda>i. ((currentKeyIndex w + i) mod length (apiKeys w),
                 apiKeys w ! ((currentKeyIndex w + i) mod length (apiKeys w)))) [0 ..< ?m]"
    and last: "if ?m = 0 then le' = None
               else (\<exists>e. le' = Some e \<and> isQuotaError (Some e) = Inr True)"
    by auto
  have "?m \<noteq> 0" using assms(1) by (auto simp: maxRetries_def)
  with last obtain e where le': "le' = Some e" and q: "isQuotaError (Some e) = Inr True" by auto
  have call: "makeAPICall E prompt userId userRole requestType subject w =
                (Inl (finalError ?m (Some e) w'), w')"
    using loop le' by (simp add: makeAPICall_unfold)
  show ?thesis
    unfolding call using keys cur cs by (auto simp: finalError_quota [OF q])
qed

lemma makeAPICall_all_quota_example:
  "1 \<le> length (apiKeys (poolOf [key1, key2, key3] 1)) \<and>
   currentKeyIndex (poolOf [key1, key2, key3] 1) < length (apiKeys (poolOf [key1, key2, key3] 1)) \<and>
   (\<forall>n key. \<exists>e. readResponse (backend alwaysQuota n key (u16 ''hello'')) = Inl e \<and>
                  isQuotaError (Some e) = Inr True) \<and>
   fst (demoCall alwaysQuota (poolOf [key1, key2, key3] 1)) = Inl (Error dailyLimitMessage) \<and>
   calls (snd (demoCall alwaysQuota (poolOf [key1, key2, key3] 1))) =
     [(1, key2), (2, key3), (0, key1)] \<and>
   currentKeyIndex (snd (demoCall alwaysQuota (poolOf [key1, key2, key3] 1))) = 1"
proof -
  let ?w = "poolOf [key1, key2, key3] 1"
  have h1: "1 \<le> length (apiKeys ?w)" by (simp add: poolOf_def)
  have h2: "currentKeyIndex ?w < length (apiKeys ?w)" by (simp add: poolOf_def)
  have h3: "\<forall>n key. \<exists>e. readResponse (backend alwaysQuota n key (u16 ''hello'')) = Inl e \<and>
                          isQuotaError (Some e) = Inr True"
    by (simp add: alwaysQuota_def readResponse_def quotaError_quota)
  from makeAPICall_all_quota [OF h1 h2 h3, of "u16 ''u1''" Student SolveDoubt "u16 ''ict''"]
  obtain thrown w' where
    "demoCall alwaysQuota ?w = (Inl (Error thrown), w')"
    "length (apiKeys ?w) \<le> maxRetries \<longrightarrow> thrown = dailyLimitMessage"
    "calls w' = calls ?w @ map (\<lambda>i. ((currentKeyIndex ?w + i) mod length (apiKeys ?w),
                   apiKeys ?w ! ((currentKeyIndex ?w + i) mod length (apiKeys ?w))))
                 [0 ..< min maxRetries (length (apiKeys ?w))]"
    "currentKeyIndex w' =
       (currentKeyIndex ?w + min maxRetries (length (apiKeys ?w))) mod length (apiKeys ?w)"
    unfolding demoCall_def by blast
  then show ?thesis
    using h1 h2 h3 by (simp add: poolOf_def maxRetries_def upt_rec)
qed

section \<open>The claims\<close>

text \<open>
  Claim C1 fails on the code, through the cursor that \<open>refreshKeys\<close> leaves behind. After
  the rebuild that leaves one credential while the cursor stands at 2, the pool has
  N = 1 credential and every invocation of the backend would fail with a quota error, so the
  claim asks for min(maxRetries, 1) = 1 attempt and the daily-limit or all-keys-full message.
  \<open>makeAPICall\<close> finds no credential at the cursor: it invokes the backend not at all, throws
  the message for a service without credentials, and leaves the cursor at 2.
\<close>

theorem makeAPICall_all_quota_stale_cursor:
  "length (apiKeys (refreshKeys alwaysQuota shrunk)) = 1 \<and>
   min maxRetries (length (apiKeys (refreshKeys alwaysQuota shrunk))) = 1 \<and>
   (\<forall>n key. \<exists>e. readResponse (backend alwaysQuota n key (u16 ''hello'')) = Inl e \<and>
                  isQuotaError (Some e) = Inr True) \<and>
   calls (snd (demoCall alwaysQuota (refreshKeys alwaysQuota shrunk))) = [] \<and>
   fst (demoCall alwaysQuota (refreshKeys alwaysQuota shrunk)) = Inl (Error noKeysMessage) \<and>
   currentKeyIndex (snd (demoCall alwaysQuota (refreshKeys alwaysQuota shrunk))) = 2"
proof -
  let ?w = "refreshKeys alwaysQuota shrunk"
  have pool: "apiKeys ?w = [key1]"
    by (simp add: refreshKeys_def initializeAPIKeys_def initializeDatabaseKeys_def restoreKeys_def
        dbOp_def Let_def shrunk_def alwaysQuota_def buildPool_one)
  have cur: "currentKeyIndex ?w = 2"
    by (simp add: refreshKeys_cursor shrunk_def)
  have none: "getCurrentKey ?w = None"
    by (simp add: getCurrentKey_def pool cur)
  have before: "calls ?w = []"
    by (simp add: refreshKeys_calls shrunk_def)
  have quota: "\<forall>n key. \<exists>e. readResponse (backend alwaysQuota n key (u16 ''hello'')) = Inl e \<and>
                           isQuotaError (Some e) = Inr True"
    by (simp add: alwaysQuota_def readResponse_def quotaError_quota)
  have call: "demoCall alwaysQuota ?w =
                (Inl (Error noKeysMessage),
                 logUsage alwaysQuota (u16 ''u1'') Student SolveDoubt (u16 ''ict'') False None
                   (JStr noKeysMessage) None None None (snd (now alwaysQuota ?w)))"
    by (simp add: demoCall_def makeAPICall_unfold attemptLoop_step maxRetries_def pool
          attemptOnce_no_key none)
  show ?thesis
    unfolding call using quota by (simp add: pool cur before maxRetries_def)
qed

text \<open>
  Claim C2, as amended. The dispatcher has no class of transient errors: every error that
  \<open>isQuotaError\<close> does not classify as quota, a network or timeout error included, ends the
  loop. At any attempt within the budget, with a valid cursor, such a failure is followed by
  one failed Usage Record against the current credential (appended unless the store rejects
  the insert), after which the loop is left with the same attempt count, with no further
  backend invocation and without moving the cursor.
\<close>

theorem attemptLoop_non_quota_stops:
  assumes "attempt < maxRetries" and "attempt < length (apiKeys w)"
    and "currentKeyIndex w < length (apiKeys w)"
    and "readResponse (backend E (length (calls w)) (apiKeys w ! currentKeyIndex w) prompt) =
           Inl e"
    and "isQuotaError (Some e) = Inr False"
  shows "\<exists>w'. attemptLoop E prompt userId userRole requestType subject startTime attempt
                 lastError w = (Fallen attempt (Some e), w') \<and>
              calls w' = calls w @ [(currentKeyIndex w, apiKeys w ! currentKeyIndex w)] \<and>
              currentKeyIndex w' = currentKeyIndex w \<and>
              praggoAIUsage w' =
                praggoAIUsage w @
                  (if dbFails E (dbOps w) then []
                   else [failedRow prompt userId userRole requestType subject
                           (apiKeys w ! currentKeyIndex w) e
                           (clock E (clockReads w) - startTime)])"
proof -
  have "attemptLoop E prompt userId userRole requestType subject startTime attempt lastError w =
          (Fallen attempt (Some e), failed E prompt userId userRole requestType subject startTime e
            w)"
    using assms(1,2) attemptOnce_non_quota [OF assms(3,4,5)] by (simp add: attemptLoop_step)
  then show ?thesis by (simp add: failed_store)
qed

theorem attemptLoop_non_quota_stops_witness:
  "(1::nat) < maxRetries \<and> 1 < length (apiKeys (poolOf [key1, key2, key3] 1)) \<and>
   currentKeyIndex (poolOf [key1, key2, key3] 1) < length (apiKeys (poolOf [key1, key2, key3] 1)) \<and>
   readResponse (backend alwaysTimeout (length (calls (poolOf [key1, key2, key3] 1)))
       (apiKeys (poolOf [key1, key2, key3] 1) ! currentKeyIndex (poolOf [key1, key2, key3] 1))
       (u16 ''hello'')) = Inl timeoutError \<and>
   isQuotaError (Some timeoutError) = Inr False \<and>
   fst (attemptLoop alwaysTimeout (u16 ''hello'') (u16 ''u1'') Student SolveDoubt (u16 ''ict'') 0 1
          (Some quotaError) (poolOf [key1, key2, key3] 1)) = Fallen 1 (Some timeoutError) \<and>
   calls (snd (attemptLoop alwaysTimeout (u16 ''hello'') (u16 ''u1'') Student SolveDoubt
          (u16 ''ict'') 0 1 (Some quotaError) (poolOf [key1, key2, key3] 1))) = [(1, key2)] \<and>
   currentKeyIndex (snd (attemptLoop alwaysTimeout (u16 ''hello'') (u16 ''u1'') Student SolveDoubt
          (u16 ''ict'') 0 1 (Some quotaError) (poolOf [key1, key2, key3] 1))) = 1"
proof -
  let ?w = "poolOf [key1, key2, key3] 1"
  have h1: "(1::nat) < maxRetries" by (simp add: maxRetries_def)
  have h2: "1 < length (apiKeys ?w)" by (simp add: poolOf_def)
  have h3: "currentKeyIndex ?w < length (apiKeys ?w)" by (simp add: poolOf_def)
  have h4: "readResponse (backend alwaysTimeout (length (calls ?w)) (apiKeys ?w ! currentKeyIndex
    ?w)
              (u16 ''hello'')) = Inl timeoutError"
    by (simp add: alwaysTimeout_def readResponse_def)
  have h5: "isQuotaError (Some timeoutError) = Inr False" by (rule timeoutError_fatal)
  from attemptLoop_non_quota_stops [OF h1 h2 h3 h4 h5, of "u16 ''u1''" Student SolveDoubt
      "u16 ''ict''" 0 "Some quotaError"]
  obtain w' where
    "attemptLoop alwaysTimeout (u16 ''hello'') (u16 ''u1'') Student SolveDoubt (u16 ''ict'') 0 1
       (Some quotaError) ?w = (Fallen 1 (Some timeoutError), w')"
    "calls w' = calls ?w @ [(currentKeyIndex ?w, apiKeys ?w ! currentKeyIndex ?w)]"
    "currentKeyIndex w' = currentKeyIndex ?w"
    by blast
  then show ?thesis
    using h1 h2 h3 h4 h5 by (simp add: poolOf_def)
qed

text \<open>
  Claim C2 as stated says that a transient failure is retried on the same credential within
  the budget. With three credentials (a budget of three attempts) and a backend that always
  times out with status 503, the backend is invoked once and the timeout is thrown.
\<close>

theorem transient_not_retried_counterexample:
  "min maxRetries (length (apiKeys (poolOf [key1, key2, key3] 0))) = 3 \<and>
   calls (snd (demoCall alwaysTimeout (poolOf [key1, key2, key3] 0))) = [(0, key1)] \<and>
   fst (demoCall alwaysTimeout (poolOf [key1, key2, key3] 0)) =
     Inl (Error (u16 ''Request timeout''))"
  by (simp add: demoCall_def dispatch_defs orJS_def isQuotaError_def errorStatus_def
        toLowerCase_def lowerUnit_def timeoutError_def u16_def poolOf_def alwaysTimeout_def)

text \<open>
  Claim C3, as amended. For every error whose message is a string or is absent (undefined or
  null), and also when the error itself is absent, \<open>isQuotaError\<close> returns a boolean, which is
  true exactly when \<open>status || code\<close> (the status, or the code when the status is absent or
  otherwise falsy) is the number 429 or 403, or the message, compared without regard to
  case, contains one of "quota", "rate limit", "limit exceeded", "resource exhausted". Being
  a function of the error, it is deterministic.
\<close>

theorem isQuotaError_classifies:
  assumes "stringOrAbsent (optField message error)"
  shows "isQuotaError error =
           Inr (errorStatus error = JNum 429 \<or> errorStatus error = JNum 403 \<or>
                (\<exists>kw \<in> set quotaWords. containsIgnoringCase (messageText error) kw))"
proof -
  have low: "messageToLowerCase error = Inr (case optField message error of JStr s \<Rightarrow> JStr
    (toLowerCase s) | _ \<Rightarrow> JUndefined)"
    using assms by (cases error) (auto simp: stringOrAbsent_def split: jsval.splits)
  have lowered: "textOf (orJS (case optField message error of JStr s \<Rightarrow> JStr (toLowerCase s) | _ \<Rightarrow>
    JUndefined) (JStr []))
             = toLowerCase (messageText error)"
    using assms by (auto simp: messageText_def orJS_def stringOrAbsent_def toLowerCase_def split:
      jsval.splits)
  have kw: "(\<exists>kw \<in> set quotaWords. containsIgnoringCase (messageText error) kw) \<longleftrightarrow>
            (\<exists>kw \<in> set quotaWords. includesJS (toLowerCase (messageText error)) kw)"
    using containsIgnoringCase_toLowerCase quotaWords_lower by blast
  show ?thesis
    unfolding isQuotaError_def low kw
    by (simp add: lowered Let_def) (auto simp: quotaWords_def)
qed

theorem isQuotaError_classifies_witness:
  "stringOrAbsent (optField message (Some \<lparr>message = JStr (u16 ''Quota hit''), status = JUndefined,
    code = JNum 500\<rparr>)) \<and>
   isQuotaError (Some \<lparr>message = JStr (u16 ''Quota hit''), status = JUndefined, code = JNum 500\<rparr>) =
     Inr True"
  using isQuotaError_classifies [of "Some \<lparr>message = JStr (u16 ''Quota hit''), status = JUndefined,
    code = JNum 500\<rparr>"]
  by (simp add: stringOrAbsent_def errorStatus_def orJS_def quotaWords_def containsIgnoringCase_def
        messageText_def u16_def lowerUnit_def)

text \<open>
  Claim C3 as stated fails in two places. It says that the classifier fails for no input:
  a message that is neither a string nor absent, here the number 42, has no \<open>toLowerCase\<close>
  method, and the call throws a \<open>TypeError\<close>. And it says that a status/code of 429 is
  enough: the code is read only when the status is falsy, so an error with the status
  "RESOURCE_EXHAUSTED", the code 429 and a message without a search word is not classified
  as quota.
\<close>

theorem isQuotaError_counterexample:
  "isQuotaError (Some \<lparr>message = JNum 42, status = JUndefined, code = JUndefined\<rparr>) =
     Inl (TypeError (notAFunction ''error?.message?.toLowerCase'')) \<and>
   isQuotaError (Some \<lparr>message = JStr (u16 ''Too Many Requests''),
                         status = JStr (u16 ''RESOURCE_EXHAUSTED''), code = JNum 429\<rparr>) =
     Inr False"
  by (simp add: isQuotaError_def errorStatus_def orJS_def toLowerCase_def lowerUnit_def u16_def)

text \<open>
  Claim C4. When the first attempt fails with an error that is not quota-classified,
  \<open>makeAPICall\<close> throws an \<open>Error\<close> at once: the backend was invoked exactly once, exactly
  one store operation was issued, the insert of the failed Usage Record for the current
  credential (the record is in the table unless the store rejected that insert), no
  credential was marked, and the cursor is where it was. The message thrown is the error's
  own message, or the service-problem message when it has none, or the daily-limit message
  when it mentions "exhausted".
\<close>

theorem makeAPICall_fatal_first:
  assumes "currentKeyIndex w < length (apiKeys w)"
    and "readResponse (backend E (length (calls w)) (apiKeys w ! currentKeyIndex w) prompt) =
           Inl e"
    and "isQuotaError (Some e) = Inr False"
  shows "\<exists>w'. makeAPICall E prompt userId userRole requestType subject w =
                (Inl (Error (if includesJS (messageText (Some e)) (u16 ''exhausted'')
                             then dailyLimitMessage
                             else if messageText (Some e) = [] then serviceProblemMessage
                             else messageText (Some e))), w') \<and>
              currentKeyIndex w' = currentKeyIndex w \<and>
              calls w' = calls w @ [(currentKeyIndex w, apiKeys w ! currentKeyIndex w)] \<and>
              dbOps w' = Suc (dbOps w) \<and>
              praggoAIKeys w' = praggoAIKeys w \<and>
              praggoAIUsage w' =
                praggoAIUsage w @
                  (if dbFails E (dbOps w) then []
                   else [failedRow prompt userId userRole requestType subject
                           (apiKeys w ! currentKeyIndex w) e
                           (clock E (Suc (clockReads w)) - clock E (clockReads w))])"
proof -
  let ?w0 = "snd (now E w)" and ?st = "fst (now E w)"
  let ?w' = "failed E prompt userId userRole requestType subject ?st e ?w0"
  have valid: "currentKeyIndex ?w0 < length (apiKeys ?w0)" using assms(1) by simp
  have resp: "readResponse (backend E (length (calls ?w0)) (apiKeys ?w0 ! currentKeyIndex ?w0)
                prompt) = Inl e"
    using assms(2) by simp
  have cond: "0 < maxRetries" "0 < length (apiKeys ?w0)"
    using assms(1) by (auto simp: maxRetries_def)
  have loop: "attemptLoop E prompt userId userRole requestType subject ?st 0 None ?w0 =
                (Fallen 0 (Some e), ?w')"
    using cond attemptOnce_non_quota [OF valid resp assms(3)] by (simp add: attemptLoop_step)
  have call: "makeAPICall E prompt userId userRole requestType subject w =
                (Inl (finalError 0 (Some e) ?w'), ?w')"
    using loop by (simp add: makeAPICall_unfold)
  have pos: "\<not> length (apiKeys w) \<le> 0" using assms(1) by auto
  show ?thesis
    unfolding call using pos
    by (simp add: finalError_non_quota [OF assms(3)] failed_store) (simp add: now_def)
qed

theorem makeAPICall_fatal_first_witness:
  "currentKeyIndex (poolOf [key1, key2, key3] 2) < length (apiKeys (poolOf [key1, key2, key3] 2)) \<and>
   readResponse (backend alwaysTimeout (length (calls (poolOf [key1, key2, key3] 2)))
       (apiKeys (poolOf [key1, key2, key3] 2) ! currentKeyIndex (poolOf [key1, key2, key3] 2))
       (u16 ''hello'')) = Inl timeoutError \<and>
   isQuotaError (Some timeoutError) = Inr False \<and>
   fst (demoCall alwaysTimeout (poolOf [key1, key2, key3] 2)) =
     Inl (Error (u16 ''Request timeout'')) \<and>
   currentKeyIndex (snd (demoCall alwaysTimeout (poolOf [key1, key2, key3] 2))) = 2 \<and>
   calls (snd (demoCall alwaysTimeout (poolOf [key1, key2, key3] 2))) = [(2, key3)] \<and>
   length (praggoAIUsage (snd (demoCall alwaysTimeout (poolOf [key1, key2, key3] 2)))) = 1"
proof -
  let ?w = "poolOf [key1, key2, key3] 2"
  have h1: "currentKeyIndex ?w < length (apiKeys ?w)" by (simp add: poolOf_def)
  have h2: "readResponse (backend alwaysTimeout (length (calls ?w)) (apiKeys ?w ! currentKeyIndex
    ?w)
              (u16 ''hello'')) = Inl timeoutError"
    by (simp add: alwaysTimeout_def readResponse_def)
  have h3: "isQuotaError (Some timeoutError) = Inr False" by (rule timeoutError_fatal)
  have m: "messageText (Some timeoutError) = u16 ''Request timeout''"
    by (simp add: messageText_def timeoutError_def)
  have plain: "\<not> includesJS (u16 ''Request timeout'') (u16 ''exhausted'')"
    "u16 ''Request timeout'' \<noteq> []"
    by (simp_all add: u16_def)
  have up: "\<not> dbFails alwaysTimeout (dbOps ?w)" by (simp add: alwaysTimeout_def)
  from makeAPICall_fatal_first [OF h1 h2 h3, of "u16 ''u1''" Student SolveDoubt "u16 ''ict''"]
  obtain w' where
    "demoCall alwaysTimeout ?w = (Inl (Error (u16 ''Request timeout'')), w')"
    "currentKeyIndex w' = currentKeyIndex ?w"
    "calls w' = calls ?w @ [(currentKeyIndex ?w, apiKeys ?w ! currentKeyIndex ?w)]"
    "length (praggoAIUsage w') = Suc (length (praggoAIUsage ?w))"
    unfolding demoCall_def m using plain up by auto
  then show ?thesis
    using h1 h2 h3 by (simp add: poolOf_def)
qed

text \<open>
  Claim C5. With an empty pool, \<open>generateQuestions\<close> returns the placeholders for the
  indices 0, ..., count - 1 (count of them; none for a count below 1) and leaves the world as
  it was: the backend is not invoked and no Usage Record is written. Every placeholder
  carries the requested question type, has options and a correct answer exactly for "mcq",
  has 10 marks for "creative", 2 for "cq" and 1 otherwise, and its text contains the
  difficulty and the label of the subject (the Bengali word for chemistry, "ICT" for any
  other subject).
\<close>

theorem generateQuestions_without_keys:
  assumes "apiKeys w = []"
  shows "generateQuestions E parseJSON subject examType classLevel chapter questionType
           questionCategory difficulty count userId userRole w =
           (Inr (Samples (map (\<lambda>k. sampleQuestion subject chapter questionType difficulty (int k))
                              [0 ..< nat count])), w) \<and>
         int (length (map (\<lambda>k. sampleQuestion subject chapter questionType difficulty (int k))
                          [0 ..< nat count])) = max 0 count \<and>
         (\<forall>i. q_questionType (sampleQuestion subject chapter questionType difficulty i) =
           questionType \<and>
              (q_options (sampleQuestion subject chapter questionType difficulty i) \<noteq> None)
                = (questionType = u16 ''mcq'') \<and>
              (q_correctAnswer (sampleQuestion subject chapter questionType difficulty i) \<noteq> None)
                = (questionType = u16 ''mcq'') \<and>
              q_marks (sampleQuestion subject chapter questionType difficulty i)
                = (if questionType = u16 ''creative'' then 10
                   else if questionType = u16 ''cq'' then 2 else 1) \<and>
              includesJS (q_questionText (sampleQuestion subject chapter questionType difficulty i))
                (if subject = u16 ''chemistry'' then chemistryBangla else u16 ''ICT'') \<and>
              includesJS (q_questionText (sampleQuestion subject chapter questionType difficulty i))
                difficulty)"
proof -
  have "generateQuestions E parseJSON subject examType classLevel chapter questionType
           questionCategory difficulty count userId userRole w =
           (Inr (Samples (map (\<lambda>k. sampleQuestion subject chapter questionType difficulty (int k))
                              [0 ..< nat count])), w)"
    using assms by (simp add: generateQuestions_def sampleLoop_map)
  moreover have "\<And>i. q_questionType (sampleQuestion subject chapter questionType difficulty i) =
    questionType"
    by (simp add: sampleQuestion_def)
  moreover have "\<And>i. (q_options (sampleQuestion subject chapter questionType difficulty i) \<noteq> None)
                = (questionType = u16 ''mcq'')"
    by (simp add: sampleQuestion_def)
  moreover have "\<And>i. (q_correctAnswer (sampleQuestion subject chapter questionType difficulty i) \<noteq>
    None)
                = (questionType = u16 ''mcq'')"
    by (simp add: sampleQuestion_def)
  moreover have "\<And>i. q_marks (sampleQuestion subject chapter questionType difficulty i)
                = (if questionType = u16 ''creative'' then 10
                   else if questionType = u16 ''cq'' then 2 else 1)"
    by (simp add: sampleQuestion_def)
  ultimately show ?thesis
    using sampleQuestion_tags [of subject "chapter" questionType difficulty] by simp
qed

theorem generateQuestions_without_keys_witness:
  "apiKeys (poolOf [] 0) = [] \<and>
   generateQuestions alwaysQuota (\<lambda>s. (None :: unit option)) (u16 ''chemistry'') (u16 ''academic'')
     (u16 ''9-10'') (u16 ''Acids'') (u16 ''mcq'') (u16 ''mixed'') (u16 ''easy'') 3 (u16 ''u1'')
       Teacher
     (poolOf [] 0) =
     (Inr (Samples
        [sampleQuestion (u16 ''chemistry'') (u16 ''Acids'') (u16 ''mcq'') (u16 ''easy'') 0,
         sampleQuestion (u16 ''chemistry'') (u16 ''Acids'') (u16 ''mcq'') (u16 ''easy'') 1,
         sampleQuestion (u16 ''chemistry'') (u16 ''Acids'') (u16 ''mcq'') (u16 ''easy'') 2]),
      poolOf [] 0) \<and>
   q_marks (sampleQuestion (u16 ''chemistry'') (u16 ''Acids'') (u16 ''mcq'') (u16 ''easy'') 2) = 1 \<and>
   includesJS (q_questionText (sampleQuestion (u16 ''chemistry'') (u16 ''Acids'') (u16 ''mcq'')
                 (u16 ''easy'') 2)) chemistryBangla"
proof -
  have empty: "apiKeys (poolOf [] 0) = []" by (simp add: poolOf_def)
  have range: "[0 ..< nat 3] = [0, 1, 2]" by (simp add: upt_rec)
  have mcq: "u16 ''mcq'' \<noteq> u16 ''creative''" "u16 ''mcq'' \<noteq> u16 ''cq''" by (simp_all add: u16_def)
  from generateQuestions_without_keys [OF empty, of alwaysQuota "\<lambda>s. (None :: unit option)"
      "u16 ''chemistry''" "u16 ''academic''" "u16 ''9-10''" "u16 ''Acids''" "u16 ''mcq''" "u16
        ''mixed''"
      "u16 ''easy''" 3 "u16 ''u1''" Teacher]
  show ?thesis
    using empty mcq unfolding range by simp
qed

text \<open>
  Claim C6. Whenever \<open>makeAPICall\<close> returns a result, the cursor afterwards is the cursor
  position at which the last backend invocation, the successful one, was made, and the
  credential it selects is the one that invocation used. With a backend that answers the
  first credential with a quota error and the second with a text, the cursor ends on the
  second credential.
\<close>

theorem makeAPICall_success_keeps_cursor:
  assumes "makeAPICall E prompt userId userRole requestType subject w = (Inr result, w')"
  shows "calls w' \<noteq> [] \<and>
         currentKeyIndex w' = fst (last (calls w')) \<and>
         getCurrentKey w' = Some (snd (last (calls w'))) \<and>
         readResponse (backend E (length (calls w') - 1) (snd (last (calls w'))) prompt) =
           Inr result"
proof -
  let ?loop = "attemptLoop E prompt userId userRole requestType subject (fst (now E w)) 0 None
                 (snd (now E w))"
  obtain ended v where loop: "?loop = (ended, v)"
    by (cases ?loop) auto
  with assms have "ended = Return result" and "v = w'"
    by (cases ended; simp add: makeAPICall_unfold)+
  with loop have "?loop = (Return result, w')"
    by simp
  from attemptLoop_Return [OF this] show ?thesis by simp
qed

theorem makeAPICall_success_keeps_cursor_witness:
  "fst (demoCall secondSucceeds (poolOf [key1, key2] 0)) = Inr (u16 ''answer'') \<and>
   calls (snd (demoCall secondSucceeds (poolOf [key1, key2] 0))) = [(0, key1), (1, key2)] \<and>
   currentKeyIndex (snd (demoCall secondSucceeds (poolOf [key1, key2] 0))) = 1 \<and>
   getCurrentKey (snd (demoCall secondSucceeds (poolOf [key1, key2] 0))) = Some key2"
proof -
  let ?call = "demoCall secondSucceeds (poolOf [key1, key2] 0)"
  have names: "keyName key2 \<noteq> keyName key1" by (simp add: key1_def key2_def u16_def)
  have res: "fst ?call = Inr (u16 ''answer'')"
    using names
    by (simp add: demoCall_def dispatch_defs quotaError_quota answer_def poolOf_def
          secondSucceeds_def)
  have cs: "calls (snd ?call) = [(0, key1), (1, key2)]"
    using names
    by (simp add: demoCall_def dispatch_defs quotaError_quota answer_def poolOf_def
          secondSucceeds_def)
  have "makeAPICall secondSucceeds (u16 ''hello'') (u16 ''u1'') Student SolveDoubt (u16 ''ict'')
          (poolOf [key1, key2] 0) = (Inr (u16 ''answer''), snd ?call)"
    using res by (simp add: demoCall_def prod_eq_iff)
  from makeAPICall_success_keeps_cursor [OF this] cs res show ?thesis by simp
qed

text \<open>
  Claim C7. In a pool of N \<ge> 1 credentials with the cursor in [0, N), the cursor after any
  number of calls of \<open>rotateToNextKey\<close> is again in [0, N), and the first N positions (the
  start and the N - 1 rotations after it) are pairwise different and together are all of
  0, ..., N - 1. In a pool of at most one credential \<open>rotateToNextKey\<close> returns false at once
  and changes nothing: the line with the remainder is not reached.
\<close>

theorem rotateToNextKey_cycles:
  "(1 \<le> length (apiKeys w) \<and> currentKeyIndex w < length (apiKeys w) \<longrightarrow>
      (\<forall>k. currentKeyIndex (rotations E k w) < length (apiKeys w)) \<and>
      distinct (map (\<lambda>k. currentKeyIndex (rotations E k w)) [0 ..< length (apiKeys w)]) \<and>
      set (map (\<lambda>k. currentKeyIndex (rotations E k w)) [0 ..< length (apiKeys w)])
        = {0 ..< length (apiKeys w)}) \<and>
   (length (apiKeys w) \<le> 1 \<longrightarrow> rotateToNextKey E w = (False, w))"
proof (intro conjI impI allI; (elim conjE)?)
  show "rotateToNextKey E w = (False, w)" if "length (apiKeys w) \<le> 1"
    using that by (simp add: rotateToNextKey_def)
next
  fix k
  assume "1 \<le> length (apiKeys w)" and valid: "currentKeyIndex w < length (apiKeys w)"
  then have "0 < length (apiKeys w)" by linarith
  then show "currentKeyIndex (rotations E k w) < length (apiKeys w)"
    by (simp add: rotations_cursor [OF valid])
next
  assume "1 \<le> length (apiKeys w)" and valid: "currentKeyIndex w < length (apiKeys w)"
  then show "distinct (map (\<lambda>k. currentKeyIndex (rotations E k w)) [0 ..< length (apiKeys w)])"
    by (simp add: rotations_cursor [OF valid] distinct_map rotation_inj)
next
  assume "1 \<le> length (apiKeys w)" and valid: "currentKeyIndex w < length (apiKeys w)"
  then have "0 < length (apiKeys w)" by linarith
  then show "set (map (\<lambda>k. currentKeyIndex (rotations E k w)) [0 ..< length (apiKeys w)])
               = {0 ..< length (apiKeys w)}"
    by (simp add: rotations_cursor [OF valid] rotation_onto)
qed

theorem rotateToNextKey_cycles_witness:
  "(1 \<le> length (apiKeys (poolOf [key1, key2, key3] 1)) \<and>
    currentKeyIndex (poolOf [key1, key2, key3] 1) < length (apiKeys (poolOf [key1, key2, key3] 1)))
      \<and>
   currentKeyIndex (rotations alwaysQuota 5 (poolOf [key1, key2, key3] 1))
     < length (apiKeys (poolOf [key1, key2, key3] 1)) \<and>
   set (map (\<lambda>k. currentKeyIndex (rotations alwaysQuota k (poolOf [key1, key2, key3] 1)))
          [0 ..< length (apiKeys (poolOf [key1, key2, key3] 1))])
     = {0 ..< length (apiKeys (poolOf [key1, key2, key3] 1))} \<and>
   length (apiKeys (poolOf [key1] 0)) \<le> 1 \<and>
   rotateToNextKey alwaysQuota (poolOf [key1] 0) = (False, poolOf [key1] 0)"
proof -
  have three: "1 \<le> length (apiKeys (poolOf [key1, key2, key3] 1)) \<and>
      currentKeyIndex (poolOf [key1, key2, key3] 1) < length (apiKeys (poolOf [key1, key2, key3]
        1))"
    by (simp add: poolOf_def)
  have one: "length (apiKeys (poolOf [key1] 0)) \<le> 1"
    by (simp add: poolOf_def)
  show ?thesis
    using three one rotateToNextKey_cycles [of "poolOf [key1, key2, key3] 1" alwaysQuota]
      rotateToNextKey_cycles [of "poolOf [key1] 0" alwaysQuota]
    by blast
qed

text \<open>
  Claim C8 fails on the code: \<open>refreshKeys\<close> rebuilds \<open>apiKeys\<close> and never assigns
  \<open>currentKeyIndex\<close>. After a rebuild that leaves one credential while the cursor stands at 2,
  the pool is not empty, \<open>getCurrentKey\<close> finds no credential, and \<open>makeAPICall\<close> throws the
  message for a service without credentials, although the backend would answer.
\<close>

theorem refreshKeys_shrunk_pool:
  "apiKeys (refreshKeys alwaysAnswers shrunk) = [key1] \<and>
   currentKeyIndex (refreshKeys alwaysAnswers shrunk) = 2 \<and>
   getCurrentKey (refreshKeys alwaysAnswers shrunk) = None \<and>
   fst (demoCall alwaysAnswers (refreshKeys alwaysAnswers shrunk)) = Inl (Error noKeysMessage)"
proof -
  have pool: "apiKeys (refreshKeys alwaysAnswers shrunk) = [key1]"
    by (simp add: refreshKeys_def initializeAPIKeys_def initializeDatabaseKeys_def restoreKeys_def
        dbOp_def Let_def shrunk_def alwaysAnswers_def buildPool_one)
  have cur: "currentKeyIndex (refreshKeys alwaysAnswers shrunk) = 2"
    by (simp add: refreshKeys_cursor shrunk_def)
  have none: "getCurrentKey (refreshKeys alwaysAnswers shrunk) = None"
    by (simp add: getCurrentKey_def pool cur)
  have "fst (demoCall alwaysAnswers (refreshKeys alwaysAnswers shrunk)) = Inl (Error noKeysMessage)"
    by (simp add: demoCall_def makeAPICall_unfold attemptLoop_step maxRetries_def pool
          attemptOnce_no_key none)
  with pool cur none show ?thesis by simp
qed

text \<open>
  Claim C9. Whatever store operations fail (the insert of a Usage Record, the usage counter
  update, the quota mark of \<open>rotateToNextKey\<close>), \<open>makeAPICall\<close> returns or throws the same
  value, leaves the same pool and cursor, and makes the same backend invocations as it does
  when no store operation fails.
\<close>

theorem persistence_failures_swallowed:
  "\<exists>outcome w1 w2.
     makeAPICall (E\<lparr>dbFails := fails\<rparr>) prompt userId userRole requestType subject w =
       (outcome, w1) \<and>
     makeAPICall (E\<lparr>dbFails := (\<lambda>n. False)\<rparr>) prompt userId userRole requestType subject w =
       (outcome, w2) \<and>
     apiKeys w1 = apiKeys w2 \<and> currentKeyIndex w1 = currentKeyIndex w2 \<and> calls w1 = calls w2"
proof -
  let ?down = "makeAPICall (E\<lparr>dbFails := fails\<rparr>) prompt userId userRole requestType subject w"
  let ?up = "makeAPICall (E\<lparr>dbFails := (\<lambda>n. False)\<rparr>) prompt userId userRole requestType
               subject w"
  have "backend (E\<lparr>dbFails := fails\<rparr>) = backend (E\<lparr>dbFails := (\<lambda>n. False)\<rparr>)" by simp
  moreover have "sameMemory w w" by (simp add: sameMemory_def)
  ultimately have "fst ?down = fst ?up \<and> sameMemory (snd ?down) (snd ?up)"
    by (rule makeAPICall_independent)
  then have "?down = (fst ?down, snd ?down) \<and> ?up = (fst ?down, snd ?up) \<and>
             apiKeys (snd ?down) = apiKeys (snd ?up) \<and>
             currentKeyIndex (snd ?down) = currentKeyIndex (snd ?up) \<and>
             calls (snd ?down) = calls (snd ?up)"
    by (simp add: sameMemory_def prod_eq_iff)
  then show ?thesis by blast
qed

theorem persistence_failures_swallowed_witness:
  "fst (demoCall (secondSucceeds\<lparr>dbFails := (\<lambda>n. True)\<rparr>) (poolOf [key1, key2] 0)) =
     Inr (u16 ''answer'') \<and>
   currentKeyIndex (snd (demoCall (secondSucceeds\<lparr>dbFails := (\<lambda>n. True)\<rparr>)
                           (poolOf [key1, key2] 0))) = 1 \<and>
   praggoAIUsage (snd (demoCall (secondSucceeds\<lparr>dbFails := (\<lambda>n. True)\<rparr>)
                         (poolOf [key1, key2] 0))) = []"
proof -
  let ?up = "demoCall (secondSucceeds\<lparr>dbFails := (\<lambda>n. False)\<rparr>) (poolOf [key1, key2] 0)"
  let ?down = "demoCall (secondSucceeds\<lparr>dbFails := (\<lambda>n. True)\<rparr>) (poolOf [key1, key2] 0)"
  have names: "keyName key2 \<noteq> keyName key1" by (simp add: key1_def key2_def u16_def)
  have up: "fst ?up = Inr (u16 ''answer'')" "currentKeyIndex (snd ?up) = 1"
    using names
    by (simp_all add: demoCall_def dispatch_defs quotaError_quota answer_def poolOf_def
          secondSucceeds_def)
  have down: "praggoAIUsage (snd ?down) = []"
    using names
    by (simp add: demoCall_def dispatch_defs quotaError_quota answer_def poolOf_def
          secondSucceeds_def)
  from persistence_failures_swallowed [where E = secondSucceeds and fails = "\<lambda>n. True"
      and prompt = "u16 ''hello''" and userId = "u16 ''u1''" and userRole = Student
      and requestType = SolveDoubt and subject = "u16 ''ict''" and w = "poolOf [key1, key2] 0"]
  obtain outcome w1 w2 where
    "?down = (outcome, w1)" "?up = (outcome, w2)" "currentKeyIndex w1 = currentKeyIndex w2"
    unfolding demoCall_def by blast
  with up down show ?thesis by simp
qed

text \<open>
  Claim C10. \<open>solveDoubt\<close> returns a text for every input and never throws: with an empty pool
  the demo text, with the world untouched; and when \<open>makeAPICall\<close> throws, the error text,
  which contains the message of what was thrown.
\<close>

theorem solveDoubt_total:
  "(\<exists>answer. fst (solveDoubt E question subject userId userRole w) = Inr answer) \<and>
   (apiKeys w = [] \<longrightarrow>
      solveDoubt E question subject userId userRole w = (Inr (demoAnswer question subject), w)) \<and>
   (\<forall>error. apiKeys w \<noteq> [] \<and>
        fst (makeAPICall E
               (doubtPrompt question subject
                  (if subject = u16 ''chemistry'' then chemistryBangla else ictBangla))
               userId userRole SolveDoubt subject w) = Inl error \<longrightarrow>
      fst (solveDoubt E question subject userId userRole w) =
        Inr (errorAnswer question (if subject = u16 ''chemistry'' then chemistryBangla else
          ictBangla)
               error) \<and>
      includesJS
        (errorAnswer question (if subject = u16 ''chemistry'' then chemistryBangla else ictBangla)
          error)
        (exnMessage error))"
proof (intro conjI allI impI)
  show "\<exists>answer. fst (solveDoubt E question subject userId userRole w) = Inr answer"
    by (simp add: solveDoubt_def Let_def split: prod.splits sum.splits)
  show "solveDoubt E question subject userId userRole w = (Inr (demoAnswer question subject), w)"
    if "apiKeys w = []"
    using that by (simp add: solveDoubt_def)
next
  fix error
  assume "apiKeys w \<noteq> [] \<and>
        fst (makeAPICall E
               (doubtPrompt question subject
                  (if subject = u16 ''chemistry'' then chemistryBangla else ictBangla))
               userId userRole SolveDoubt subject w) = Inl error"
  then show "fst (solveDoubt E question subject userId userRole w) =
        Inr (errorAnswer question (if subject = u16 ''chemistry'' then chemistryBangla else
          ictBangla)
               error)"
    by (auto simp: solveDoubt_def Let_def split: prod.splits sum.splits)
  show "includesJS
        (errorAnswer question (if subject = u16 ''chemistry'' then chemistryBangla else ictBangla)
          error)
        (exnMessage error)"
    by (rule errorAnswer_message)
qed

theorem solveDoubt_total_witness:
  "apiKeys (poolOf [] 0) = [] \<and>
   solveDoubt alwaysQuota (u16 ''What is pH?'') (u16 ''chemistry'') (u16 ''u1'') Student (poolOf []
     0) =
     (Inr (demoAnswer (u16 ''What is pH?'') (u16 ''chemistry'')), poolOf [] 0) \<and>
   apiKeys (poolOf [key1] 0) \<noteq> [] \<and>
   fst (makeAPICall alwaysQuota (doubtPrompt (u16 ''What is pH?'') (u16 ''chemistry'')
     chemistryBangla)
          (u16 ''u1'') Student SolveDoubt (u16 ''chemistry'') (poolOf [key1] 0)) =
     Inl (Error dailyLimitMessage) \<and>
   fst (solveDoubt alwaysQuota (u16 ''What is pH?'') (u16 ''chemistry'') (u16 ''u1'') Student
          (poolOf [key1] 0)) =
     Inr (errorAnswer (u16 ''What is pH?'') chemistryBangla (Error dailyLimitMessage)) \<and>
   includesJS (errorAnswer (u16 ''What is pH?'') chemistryBangla (Error dailyLimitMessage))
     dailyLimitMessage"
proof -
  have empty: "apiKeys (poolOf [] 0) = []" by (simp add: poolOf_def)
  have one: "apiKeys (poolOf [key1] 0) \<noteq> []" by (simp add: poolOf_def)
  have thrown: "fst (makeAPICall alwaysQuota
          (doubtPrompt (u16 ''What is pH?'') (u16 ''chemistry'') chemistryBangla)
          (u16 ''u1'') Student SolveDoubt (u16 ''chemistry'') (poolOf [key1] 0)) =
     Inl (Error dailyLimitMessage)"
    by (simp add: dispatch_defs quotaError_quota poolOf_def alwaysQuota_def)
      (simp add: quotaError_def u16_def)
  from solveDoubt_total [of alwaysQuota "u16 ''What is pH?''" "u16 ''chemistry''" "u16 ''u1''"
    Student
      "poolOf [] 0"]
    solveDoubt_total [of alwaysQuota "u16 ''What is pH?''" "u16 ''chemistry''" "u16 ''u1''" Student
      "poolOf [key1] 0"]
  show ?thesis
    using empty one thrown by simp
qed

end
